theory Spec2Isabelle
  imports Main "HOL-Library.Multiset" "HOL-Library.Char_ord" "HOL-Library.List_Lexorder"
    "HOL-Library.AList"
begin

section \<open>Strategy dispatch of \<open>sqlalchemy.orm.interfaces\<close>\<close>

text \<open>
  A shallow embedding of \<open>lib/sqlalchemy/orm/interfaces.py\<close>: the classes
  \<open>MapperProperty\<close>, \<open>StrategizedProperty\<close>, \<open>LoaderStrategy\<close>,
  \<open>CompileStateOption\<close> and \<open>LoaderOption\<close>.

  Python objects with identity are modelled by references: a strategy instance is an
  index into a heap of instances (a constructor call appends to the heap), a property
  carries its own identity in the field \<open>prop_id\<close>. A method that mutates \<open>self\<close> takes the
  state and returns the state it leaves behind, together with its result or the
  exception it raised. Names that start with an underscore in the source lose it here.
\<close>

subsection \<open>Values, Strategy Keys and classes\<close>

text \<open>
  The values of loader options (\<open>lazy="select"\<close>, \<open>deferred=True\<close>, ...), up to the
  equality the dict lookups of this file use: Python's \<open>==\<close> together with \<open>hash\<close>. There
  \<open>bool\<close> is a subclass of \<open>int\<close>, \<open>True == 1\<close> and \<open>False == 0\<close> with equal hashes, so
  \<open>True\<close> and \<open>False\<close> are the integers 1 and 0: the key tuples \<open>(("lazy", True),)\<close> and
  \<open>(("lazy", 1),)\<close> are one dict key, as they are one value here.
\<close>

datatype pyval = PyNone | PyInt int | PyStr string

abbreviation PyTrue :: pyval where
  "PyTrue \<equiv> PyInt 1"

abbreviation PyFalse :: pyval where
  "PyFalse \<equiv> PyInt 0"

text \<open>
  A Strategy Key is a Python tuple of \<open>(name, value)\<close> pairs. The keyword arguments
  \<open>**kw\<close> of \<open>strategy_for\<close> are a Python dict: its \<open>items()\<close> come in insertion order
  and no name occurs twice.
\<close>

type_synonym strategy_key = "(string \<times> pyval) list"

text \<open>
  A property class, with the tail of its method resolution order: \<open>cls.__mro__\<close> starts
  with the class itself.
\<close>

record prop_class =
  cls_name :: string
  cls_ancestors :: "string list"

definition mro :: "prop_class \<Rightarrow> string list" where
  "mro cls = cls_name cls # cls_ancestors cls"

text \<open>
  \<open>_all_strategies = collections.defaultdict(dict)\<close>: property class to (Strategy Key
  to strategy class), both dicts in insertion order. \<open>AList.update\<close> is the dict
  assignment: it replaces the value of a key in place and appends a new key at the end.
\<close>

type_synonym strategies = "(strategy_key \<times> string) list"
type_synonym registry = "(string \<times> strategies) list"

text \<open>
  The state \<open>strategy_for\<close> writes: the registry, and the list \<open>_strategy_keys\<close> in the
  \<open>__dict__\<close> of every decorated strategy class.
\<close>

record registry_state =
  all_strategies :: registry
  strategy_keys :: "(string \<times> strategy_key list) list"

text \<open>
  \<open>tuple(sorted(kw.items()))\<close>. Python compares the pairs lexicographically; the names
  of a dict are distinct, so the comparison is decided by the names, which Python
  orders by code point, as \<open>List_Lexorder\<close> and \<open>Char_ord\<close> do.
\<close>

definition sorted_items :: "(string \<times> pyval) list \<Rightarrow> strategy_key" where
  "sorted_items kw = sort_key fst kw"

text \<open>
  \<open>StrategizedProperty.strategy_for(**kw)(dec_cls)\<close>, called on the property class
  \<open>cls\<close>. Reading \<open>cls._all_strategies[cls]\<close> creates the empty dict of a class that has
  none (\<open>defaultdict\<close>).
\<close>

definition strategy_for ::
  "string \<Rightarrow> (string \<times> pyval) list \<Rightarrow> string \<Rightarrow> registry_state \<Rightarrow> registry_state" where
  "strategy_for cls kw dec_cls st =
     (let own_keys = (case map_of (strategy_keys st) dec_cls of
                        None \<Rightarrow> [] | Some ks \<Rightarrow> ks);
          key = sorted_items kw;
          strats = (case map_of (all_strategies st) cls of
                      None \<Rightarrow> [] | Some d \<Rightarrow> d)
      in st\<lparr>all_strategies :=
               AList.update cls (AList.update key dec_cls strats) (all_strategies st),
            strategy_keys := AList.update dec_cls (own_keys @ [key]) (strategy_keys st)\<rparr>)"

definition empty_registry :: registry_state where
  "empty_registry = \<lparr>all_strategies = [], strategy_keys = []\<rparr>"

subsection \<open>Exceptions\<close>

text \<open>
  \<open>AttributeError\<close> names the slot that was read before it was assigned.
  \<open>LoaderStrategyException(cls, requesting_property, intended_property_type,
  actual_strategy, key)\<close> keeps its five arguments.
\<close>

datatype exn =
    AttributeError string
  | LoaderStrategyException prop_class nat "string option" "string option" strategy_key

subsection \<open>Strategy Registry lookup\<close>

text \<open>
  The first loop of \<open>_strategy_lookup\<close>: the classes of \<open>cls.__mro__\<close> in order, the first
  registry that holds the key returns.
\<close>

fun lookup_mro :: "registry \<Rightarrow> string list \<Rightarrow> strategy_key \<Rightarrow> string option" where
  "lookup_mro reg [] key = None"
| "lookup_mro reg (prop_cls # rest) key =
     (case map_of reg prop_cls of
        None \<Rightarrow> lookup_mro reg rest key
      | Some strats \<Rightarrow>
          (case map_of strats key of
             Some found \<Rightarrow> Some found
           | None \<Rightarrow> lookup_mro reg rest key))"

text \<open>
  The second loop: every registry in insertion order, the first that holds the key
  gives \<open>intended_property_type\<close> and \<open>actual_strategy\<close>; the \<open>else\<close> of the loop leaves
  both \<open>None\<close>.
\<close>

fun scan_all :: "registry \<Rightarrow> strategy_key \<Rightarrow> (string \<times> string) option" where
  "scan_all [] key = None"
| "scan_all ((property_type, strats) # rest) key =
     (case map_of strats key of
        Some actual \<Rightarrow> Some (property_type, actual)
      | None \<Rightarrow> scan_all rest key)"

text \<open>
  \<open>_strategy_lookup(cls, requesting_property, *key)\<close>. The key is used as it is passed.
  The first statement of the source reads a memoized attribute of the parent mapper and
  drops it; the mapper is outside this file.
\<close>

definition strategy_lookup :: "registry \<Rightarrow> prop_class \<Rightarrow> nat \<Rightarrow> strategy_key \<Rightarrow> exn + string" where
  "strategy_lookup reg cls requesting_property key =
     (case lookup_mro reg (mro cls) key of
        Some found \<Rightarrow> Inr found
      | None \<Rightarrow>
          (case scan_all reg key of
             Some (intended_property_type, actual_strategy) \<Rightarrow>
               Inl (LoaderStrategyException cls requesting_property
                      (Some intended_property_type) (Some actual_strategy) key)
           | None \<Rightarrow>
               Inl (LoaderStrategyException cls requesting_property None None key)))"

subsection \<open>Mappers, strategy instances and properties\<close>

text \<open>
  What this file reads of a \<open>Mapper\<close>: its identity, the flag \<open>non_primary\<close>, and the keys
  for which \<open>class_manager._attr_has_impl\<close> answers true.
\<close>

record mapper =
  mapper_id :: nat
  non_primary :: bool
  attr_impls :: "string list"

definition attr_has_impl :: "mapper \<Rightarrow> string \<Rightarrow> bool" where
  "attr_has_impl m k = (k \<in> set (attr_impls m))"

text \<open>
  \<open>dict(strategy_key)\<close>: the pairs are inserted from left to right, a later pair
  replacing an earlier one with the same name.
\<close>

definition py_dict :: "('k \<times> 'v) list \<Rightarrow> ('k \<rightharpoonup> 'v)" where
  "py_dict ps = foldl (\<lambda>m (k, v). m(k \<mapsto> v)) Map.empty ps"

text \<open>
  The slots of a \<open>LoaderStrategy\<close>, and the strategy class it was built from.
  \<open>parent_property\<close> refers to the owning property by its identity.
\<close>

record loader_strategy =
  ls_cls :: string
  parent_property :: nat
  is_class_level :: bool
  ls_parent :: mapper
  ls_key :: string
  ls_strategy_key :: strategy_key
  strategy_opts :: "string \<rightharpoonup> pyval"

text \<open>
  The slots of a \<open>StrategizedProperty\<close>. \<open>parent\<close> and \<open>key\<close> are assigned by the mapper
  before any method below runs; \<open>strategy_key\<close> by the constructor of the subclass.
  \<open>_strategies\<close> and \<open>strategy\<close> are assigned by \<open>do_init\<close> only: \<open>None\<close> is the slot
  not yet assigned, and reading it raises \<open>AttributeError\<close>. The values of
  \<open>_strategies\<close> refer to instances in the heap.
\<close>

record strategized_property =
  prop_id :: nat
  prop_cls :: prop_class
  configure_started :: bool
  configure_finished :: bool
  prop_parent :: mapper
  prop_key :: string
  prop_strategy_key :: strategy_key
  prop_strategies :: "(strategy_key \<rightharpoonup> nat) option"
  prop_strategy :: "nat option"

record state =
  st_heap :: "loader_strategy list"
  st_prop :: strategized_property

text \<open>
  \<open>MapperProperty.__init__\<close>: both flags false. The other arguments are what the
  subclass and the mapper assign.
\<close>

definition MapperProperty_init ::
  "nat \<Rightarrow> prop_class \<Rightarrow> mapper \<Rightarrow> string \<Rightarrow> strategy_key \<Rightarrow> strategized_property" where
  "MapperProperty_init ident cls parent name default_key =
     \<lparr>prop_id = ident, prop_cls = cls,
      configure_started = False, configure_finished = False,
      prop_parent = parent, prop_key = name, prop_strategy_key = default_key,
      prop_strategies = None, prop_strategy = None\<rparr>"

text \<open>\<open>LoaderStrategy.__init__(self, parent, strategy_key)\<close>, for an instance of class \<open>cls\<close>.\<close>

definition LoaderStrategy_init ::
  "string \<Rightarrow> strategized_property \<Rightarrow> strategy_key \<Rightarrow> loader_strategy" where
  "LoaderStrategy_init cls p skey =
     \<lparr>ls_cls = cls, parent_property = prop_id p, is_class_level = False,
      ls_parent = prop_parent p, ls_key = prop_key p,
      ls_strategy_key = skey, strategy_opts = py_dict skey\<rparr>"

subsection \<open>Strategy resolution\<close>

text \<open>
  \<open>_get_strategy(self, key)\<close>: the cached instance if the key is in \<open>_strategies\<close>;
  otherwise the registry lookup, a new instance at the end of the heap, and the cache
  entry under the key.
\<close>

definition get_strategy :: "registry \<Rightarrow> state \<Rightarrow> strategy_key \<Rightarrow> (exn + nat) \<times> state" where
  "get_strategy reg st skey =
     (let p = st_prop st in
      case prop_strategies p of
        None \<Rightarrow> (Inl (AttributeError ''_strategies''), st)
      | Some cache \<Rightarrow>
          (case cache skey of
             Some cached \<Rightarrow> (Inr cached, st)
           | None \<Rightarrow>
               (case strategy_lookup reg (prop_cls p) (prop_id p) skey of
                  Inl e \<Rightarrow> (Inl e, st)
                | Inr cls \<Rightarrow>
                    (let strategy = length (st_heap st) in
                     (Inr strategy,
                      \<lparr>st_heap = st_heap st @ [LoaderStrategy_init cls p skey],
                       st_prop = p\<lparr>prop_strategies := Some (cache(skey \<mapsto> strategy))\<rparr>\<rparr>)))))"

text \<open>\<open>StrategizedProperty.do_init\<close>.\<close>

definition do_init :: "registry \<Rightarrow> state \<Rightarrow> (exn + unit) \<times> state" where
  "do_init reg st =
     (let st1 = st\<lparr>st_prop := (st_prop st)\<lparr>prop_strategies := Some Map.empty\<rparr>\<rparr> in
      case get_strategy reg st1 (prop_strategy_key (st_prop st1)) of
        (Inl e, st2) \<Rightarrow> (Inl e, st2)
      | (Inr strategy, st2) \<Rightarrow>
          (Inr (), st2\<lparr>st_prop := (st_prop st2)\<lparr>prop_strategy := Some strategy\<rparr>\<rparr>))"

text \<open>\<open>MapperProperty.init\<close>, with the \<open>do_init\<close> of \<open>StrategizedProperty\<close>.\<close>

definition init :: "registry \<Rightarrow> state \<Rightarrow> (exn + unit) \<times> state" where
  "init reg st =
     (let st1 = st\<lparr>st_prop := (st_prop st)\<lparr>configure_started := True\<rparr>\<rparr> in
      case do_init reg st1 of
        (Inl e, st2) \<Rightarrow> (Inl e, st2)
      | (Inr u, st2) \<Rightarrow>
          (Inr (), st2\<lparr>st_prop := (st_prop st2)\<lparr>configure_finished := True\<rparr>\<rparr>))"

text \<open>\<open>MapperProperty.set_parent(self, parent, init)\<close>.\<close>

definition set_parent :: "state \<Rightarrow> mapper \<Rightarrow> bool \<Rightarrow> state" where
  "set_parent st parent init_flag = st\<lparr>st_prop := (st_prop st)\<lparr>prop_parent := parent\<rparr>\<rparr>"

subsection \<open>The ambient load options\<close>

text \<open>
  A key of \<open>context.attributes\<close>: a marker and a tuple of tokens. The three keys of a
  search path are attributes of \<open>path[self]\<close>, which the path registry (outside this
  file) computes; \<open>path\<close> is indexed by a property, here by its identity.
\<close>

type_synonym path_key = "string \<times> string list"

record path_registry =
  loader_key :: path_key
  wildcard_path_loader_key :: path_key
  default_path_loader_key :: path_key

type_synonym path = "nat \<Rightarrow> path_registry"

text \<open>A load option: its identity and its field \<open>strategy\<close>, a Strategy Key or \<open>None\<close>.\<close>

record load =
  load_id :: nat
  load_strategy :: "strategy_key option"

record compile_context =
  ctx_id :: nat
  attributes :: "path_key \<rightharpoonup> load"

text \<open>The \<open>for\<close> loop of \<open>_get_context_loader\<close>: the first key present breaks.\<close>

fun probe :: "(path_key \<rightharpoonup> load) \<Rightarrow> path_key list \<Rightarrow> load option" where
  "probe attrs [] = None"
| "probe attrs (path_key # rest) =
     (case attrs path_key of
        Some found \<Rightarrow> Some found
      | None \<Rightarrow> probe attrs rest)"

definition get_context_loader ::
  "strategized_property \<Rightarrow> compile_context \<Rightarrow> path \<Rightarrow> load option" where
  "get_context_loader self ctx pth =
     (let search_path = pth (prop_id self) in
      probe (attributes ctx)
        [loader_key search_path,
         wildcard_path_loader_key search_path,
         default_path_loader_key search_path])"

text \<open>
  \<open>loader and loader.strategy\<close>: a load option is an object and so true; \<open>None\<close> and the
  empty tuple are false. The result is the Strategy Key to resolve, if there is one.
\<close>

definition loader_strategy_of :: "load option \<Rightarrow> strategy_key option" where
  "loader_strategy_of loader =
     (case loader of
        None \<Rightarrow> None
      | Some l \<Rightarrow>
          (case load_strategy l of
             None \<Rightarrow> None
           | Some skey \<Rightarrow> if skey = [] then None else Some skey))"

text \<open>
  The calls a property hands on to a strategy instance, with their arguments in the
  order of the source. Query entities, adapters, results and populators are passed
  through untouched and are identified by a number.
\<close>

datatype call =
    Setup_query nat compile_context nat path "load option" nat "(string \<times> nat) list"
  | Create_row_processor nat compile_context nat path "load option" mapper nat nat nat
  | Init_class_attribute nat mapper

text \<open>The choice of \<open>strat\<close> shared by \<open>setup\<close> and \<open>create_row_processor\<close>.\<close>

definition select_strategy :: "registry \<Rightarrow> state \<Rightarrow> load option \<Rightarrow> (exn + nat) \<times> state" where
  "select_strategy reg st loader =
     (case loader_strategy_of loader of
        Some skey \<Rightarrow> get_strategy reg st skey
      | None \<Rightarrow>
          (case prop_strategy (st_prop st) of
             None \<Rightarrow> (Inl (AttributeError ''strategy''), st)
           | Some strat \<Rightarrow> (Inr strat, st)))"

text \<open>\<open>StrategizedProperty.setup\<close> (the name alone is reserved in theory files).\<close>

definition prop_setup ::
  "registry \<Rightarrow> state \<Rightarrow> compile_context \<Rightarrow> nat \<Rightarrow> path \<Rightarrow> nat \<Rightarrow> (string \<times> nat) list
     \<Rightarrow> (exn + call) \<times> state" where
  "prop_setup reg st ctx query_entity pth adapter kwargs =
     (let loader = get_context_loader (st_prop st) ctx pth in
      case select_strategy reg st loader of
        (Inl e, st') \<Rightarrow> (Inl e, st')
      | (Inr strat, st') \<Rightarrow>
          (Inr (Setup_query strat ctx query_entity pth loader adapter kwargs), st'))"

definition create_row_processor ::
  "registry \<Rightarrow> state \<Rightarrow> compile_context \<Rightarrow> nat \<Rightarrow> path \<Rightarrow> mapper \<Rightarrow> nat \<Rightarrow> nat \<Rightarrow> nat
     \<Rightarrow> (exn + call) \<times> state" where
  "create_row_processor reg st ctx query_entity pth mpr result adapter populators =
     (let loader = get_context_loader (st_prop st) ctx pth in
      case select_strategy reg st loader of
        (Inl e, st') \<Rightarrow> (Inl e, st')
      | (Inr strat, st') \<Rightarrow>
          (Inr (Create_row_processor strat ctx query_entity pth loader mpr result
                  adapter populators), st'))"

text \<open>
  \<open>post_instrument_class(self, mapper)\<close>: the call it makes, if any. \<open>self.strategy\<close> is
  read only when the condition holds.
\<close>

definition post_instrument_class :: "state \<Rightarrow> mapper \<Rightarrow> exn + call option" where
  "post_instrument_class st mpr =
     (let self = st_prop st in
      if \<not> non_primary (prop_parent self) \<and> \<not> attr_has_impl mpr (prop_key self)
      then (case prop_strategy self of
              None \<Rightarrow> Inl (AttributeError ''strategy'')
            | Some strat \<Rightarrow> Inr (Some (Init_class_attribute strat mpr)))
      else Inr None)"

subsection \<open>Sequences of operations on a property\<close>

text \<open>
  The methods of this file that a caller can invoke on a constructed property, and the
  state each leaves behind, whether it returned or raised.
\<close>

datatype operation =
    Op_init
  | Op_do_init
  | Op_get_strategy strategy_key
  | Op_setup compile_context nat path nat "(string \<times> nat) list"
  | Op_create_row_processor compile_context nat path mapper nat nat nat
  | Op_post_instrument_class mapper
  | Op_set_parent mapper bool

fun step :: "registry \<Rightarrow> state \<Rightarrow> operation \<Rightarrow> state" where
  "step reg st Op_init = snd (init reg st)"
| "step reg st Op_do_init = snd (do_init reg st)"
| "step reg st (Op_get_strategy skey) = snd (get_strategy reg st skey)"
| "step reg st (Op_setup ctx query_entity pth adapter kwargs) =
     snd (prop_setup reg st ctx query_entity pth adapter kwargs)"
| "step reg st (Op_create_row_processor ctx query_entity pth mpr result adapter populators) =
     snd (create_row_processor reg st ctx query_entity pth mpr result adapter populators)"
| "step reg st (Op_post_instrument_class mpr) = st"
| "step reg st (Op_set_parent parent init_flag) = set_parent st parent init_flag"

definition run :: "registry \<Rightarrow> state \<Rightarrow> operation list \<Rightarrow> state" where
  "run reg st ops = foldl (step reg) st ops"

subsection \<open>Compile-state options\<close>

text \<open>
  \<open>CompileStateOption\<close> and its two subclasses in this file. The bodies of
  \<open>CompileStateOption.process_compile_state\<close> and of
  \<open>CompileStateOption.process_compile_state_replaced_entities\<close> are a docstring only:
  they return and leave the compile state as it is. A concrete option class supplies
  its own \<open>process_compile_state\<close>, which may raise; \<open>None\<close> is an option class that
  supplies none. Only \<open>LoaderOption\<close> defines \<open>process_compile_state_replaced_entities\<close>
  anew.
\<close>

datatype option_base = CompileStateOption | LoaderOption | CriteriaOption

record 'cs orm_option =
  opt_base :: option_base
  opt_process_compile_state :: "('cs \<Rightarrow> exn + 'cs) option"

definition process_compile_state :: "'cs orm_option \<Rightarrow> 'cs \<Rightarrow> exn + 'cs" where
  "process_compile_state self compile_state =
     (case opt_process_compile_state self of
        None \<Rightarrow> Inr compile_state
      | Some body \<Rightarrow> body compile_state)"

definition process_compile_state_replaced_entities ::
  "'cs orm_option \<Rightarrow> 'cs \<Rightarrow> nat list \<Rightarrow> exn + 'cs" where
  "process_compile_state_replaced_entities self compile_state mapper_entities =
     (case opt_base self of
        LoaderOption \<Rightarrow> process_compile_state self compile_state
      | CompileStateOption \<Rightarrow> Inr compile_state
      | CriteriaOption \<Rightarrow> Inr compile_state)"

subsection \<open>Notions used in the statements\<close>

text \<open>What the registry scoped to one property class holds under a key, if anything.\<close>

definition registered :: "registry \<Rightarrow> string \<Rightarrow> strategy_key \<Rightarrow> string option" where
  "registered reg c skey =
     (case map_of reg c of None \<Rightarrow> None | Some strats \<Rightarrow> map_of strats skey)"

text \<open>
  The strategy cache of a property is sound when every entry refers to an instance in
  the heap that was built for the entry's own key and for this property: its options
  are the pairs of the key, the last pair of a name deciding (\<open>map_of\<close> takes the first
  pair of a name, hence the reversal).
\<close>

definition cache_ok :: "state \<Rightarrow> bool" where
  "cache_ok st =
     (\<forall>cache skey a. prop_strategies (st_prop st) = Some cache \<longrightarrow> cache skey = Some a \<longrightarrow>
        a < length (st_heap st) \<and>
        ls_strategy_key (st_heap st ! a) = skey \<and>
        strategy_opts (st_heap st ! a) = map_of (rev skey) \<and>
        parent_property (st_heap st ! a) = prop_id (st_prop st))"

subsection \<open>Example objects\<close>

text \<open>
  A small registry written the way the loader strategies register themselves, a
  relationship property \<open>User.addresses\<close> with its path keys, and a user-defined
  subclass of the relationship property class.
\<close>

definition ex_registry :: registry_state where
  "ex_registry =
     strategy_for ''RelationshipProperty'' [(''lazy'', PyStr ''joined'')] ''JoinedLoader''
      (strategy_for ''RelationshipProperty'' [(''lazy'', PyTrue)] ''LazyLoader''
        (strategy_for ''RelationshipProperty'' [(''lazy'', PyStr ''select'')] ''LazyLoader''
          (strategy_for ''ColumnProperty''
             [(''instrument'', PyTrue), (''deferred'', PyFalse)] ''ColumnLoader''
             empty_registry)))"

definition ex_reg :: registry where
  "ex_reg = all_strategies ex_registry"

definition relationship_cls :: prop_class where
  "relationship_cls =
     \<lparr>cls_name = ''RelationshipProperty'',
      cls_ancestors = [''StrategizedProperty'', ''MapperProperty'', ''object'']\<rparr>"

definition derived_cls :: prop_class where
  "derived_cls =
     \<lparr>cls_name = ''MyRelationship'',
      cls_ancestors = [''RelationshipProperty'', ''StrategizedProperty'',
                       ''MapperProperty'', ''object'']\<rparr>"

definition column_cls :: prop_class where
  "column_cls =
     \<lparr>cls_name = ''ColumnProperty'',
      cls_ancestors = [''StrategizedProperty'', ''MapperProperty'', ''object'']\<rparr>"

definition ex_mapper :: mapper where
  "ex_mapper = \<lparr>mapper_id = 1, non_primary = False, attr_impls = [''id'']\<rparr>"

definition key_select :: strategy_key where
  "key_select = [(''lazy'', PyStr ''select'')]"

definition key_true :: strategy_key where
  "key_true = [(''lazy'', PyTrue)]"

definition key_joined :: strategy_key where
  "key_joined = [(''lazy'', PyStr ''joined'')]"

definition ex_prop :: strategized_property where
  "ex_prop = MapperProperty_init 7 relationship_cls ex_mapper ''addresses'' key_select"

definition ex_state :: state where
  "ex_state = \<lparr>st_heap = [], st_prop = ex_prop\<rparr>"

definition ex_path :: path where
  "ex_path ident =
     \<lparr>loader_key = (''loader'', [''User'', ''addresses'']),
      wildcard_path_loader_key = (''loader'', [''User'', ''relationship:*'']),
      default_path_loader_key = (''loader'', [''relationship:_sa_default''])\<rparr>"

definition load_exact :: load where
  "load_exact = \<lparr>load_id = 1, load_strategy = Some key_joined\<rparr>"

definition load_wildcard :: load where
  "load_wildcard = \<lparr>load_id = 2, load_strategy = Some key_true\<rparr>"

definition load_default :: load where
  "load_default = \<lparr>load_id = 3, load_strategy = None\<rparr>"

definition ctx_default :: compile_context where
  "ctx_default =
     \<lparr>ctx_id = 1,
      attributes = [(''loader'', [''relationship:_sa_default'']) \<mapsto> load_default]\<rparr>"

definition ctx_wildcard :: compile_context where
  "ctx_wildcard =
     \<lparr>ctx_id = 2,
      attributes = [(''loader'', [''relationship:_sa_default'']) \<mapsto> load_default,
                    (''loader'', [''User'', ''relationship:*'']) \<mapsto> load_wildcard]\<rparr>"

definition ctx_exact :: compile_context where
  "ctx_exact =
     \<lparr>ctx_id = 3,
      attributes = [(''loader'', [''relationship:_sa_default'']) \<mapsto> load_default,
                    (''loader'', [''User'', ''relationship:*'']) \<mapsto> load_wildcard,
                    (''loader'', [''User'', ''addresses'']) \<mapsto> load_exact]\<rparr>"

text \<open>
  A loader option whose \<open>process_compile_state\<close> counts its calls in a compile state
  that is a number.
\<close>

definition ex_loader_option :: "nat orm_option" where
  "ex_loader_option =
     \<lparr>opt_base = LoaderOption, opt_process_compile_state = Some (\<lambda>cs. Inr (Suc cs))\<rparr>"

definition ex_initialized :: state where
  "ex_initialized = snd (init ex_reg ex_state)"

definition mapper_with_impl :: mapper where
  "mapper_with_impl = \<lparr>mapper_id = 2, non_primary = False, attr_impls = [''id'', ''addresses'']\<rparr>"

section \<open>Properties\<close>

subsection \<open>The example registry\<close>

lemmas ex_defs = ex_registry_def ex_reg_def relationship_cls_def derived_cls_def column_cls_def
  ex_mapper_def key_select_def key_true_def key_joined_def ex_prop_def ex_state_def ex_path_def
  load_exact_def load_wildcard_def load_default_def ctx_default_def ctx_wildcard_def
  ctx_exact_def strategy_for_def empty_registry_def sorted_items_def
  MapperProperty_init_def Let_def

lemma ex_reg_value:
  "ex_reg =
     [(''ColumnProperty'',
        [([(''deferred'', PyFalse), (''instrument'', PyTrue)], ''ColumnLoader'')]),
      (''RelationshipProperty'',
        [([(''lazy'', PyStr ''select'')], ''LazyLoader''),
         ([(''lazy'', PyTrue)], ''LazyLoader''),
         ([(''lazy'', PyStr ''joined'')], ''JoinedLoader'')])]"
  by (simp add: ex_defs)

subsection \<open>The probe of the ambient load options\<close>

text \<open>
  C2. \<open>_get_context_loader\<close> probes \<open>context.attributes\<close> with the exact-path key, then
  the wildcard key, then the default key, and the first key present wins: an entry at
  the exact-path key is returned whatever the other two keys hold; with no entry at the
  exact-path key an entry at the wildcard key is returned; with neither, the entry at
  the default key; with none of the three, \<open>None\<close>.
\<close>

theorem get_context_loader_priority:
  "(attributes ctx (loader_key (pth (prop_id self))) = Some le \<longrightarrow>
      get_context_loader self ctx pth = Some le) \<and>
   (attributes ctx (loader_key (pth (prop_id self))) = None \<and>
    attributes ctx (wildcard_path_loader_key (pth (prop_id self))) = Some lw \<longrightarrow>
      get_context_loader self ctx pth = Some lw) \<and>
   (attributes ctx (loader_key (pth (prop_id self))) = None \<and>
    attributes ctx (wildcard_path_loader_key (pth (prop_id self))) = None \<and>
    attributes ctx (default_path_loader_key (pth (prop_id self))) = Some ld \<longrightarrow>
      get_context_loader self ctx pth = Some ld) \<and>
   (attributes ctx (loader_key (pth (prop_id self))) = None \<and>
    attributes ctx (wildcard_path_loader_key (pth (prop_id self))) = None \<and>
    attributes ctx (default_path_loader_key (pth (prop_id self))) = None \<longrightarrow>
      get_context_loader self ctx pth = None)"
  by (simp add: get_context_loader_def Let_def)

theorem get_context_loader_priority_witness:
  "attributes ctx_exact (loader_key (ex_path (prop_id ex_prop))) = Some load_exact \<and>
   attributes ctx_exact (wildcard_path_loader_key (ex_path (prop_id ex_prop))) = Some load_wildcard \<and>
   attributes ctx_exact (default_path_loader_key (ex_path (prop_id ex_prop))) = Some load_default \<and>
   get_context_loader ex_prop ctx_exact ex_path = Some load_exact \<and>
   attributes ctx_wildcard (loader_key (ex_path (prop_id ex_prop))) = None \<and>
   attributes ctx_wildcard (wildcard_path_loader_key (ex_path (prop_id ex_prop))) = Some load_wildcard \<and>
   get_context_loader ex_prop ctx_wildcard ex_path = Some load_wildcard \<and>
   attributes ctx_default (loader_key (ex_path (prop_id ex_prop))) = None \<and>
   attributes ctx_default (wildcard_path_loader_key (ex_path (prop_id ex_prop))) = None \<and>
   attributes ctx_default (default_path_loader_key (ex_path (prop_id ex_prop))) = Some load_default \<and>
   get_context_loader ex_prop ctx_default ex_path = Some load_default"
proof -
  have e1: "attributes ctx_exact (loader_key (ex_path (prop_id ex_prop))) = Some load_exact"
    by (simp add: ctx_exact_def ex_path_def)
  have e2: "attributes ctx_exact (wildcard_path_loader_key (ex_path (prop_id ex_prop))) = Some load_wildcard"
    by (simp add: ctx_exact_def ex_path_def)
  have e3: "attributes ctx_exact (default_path_loader_key (ex_path (prop_id ex_prop))) = Some load_default"
    by (simp add: ctx_exact_def ex_path_def)
  have w1: "attributes ctx_wildcard (loader_key (ex_path (prop_id ex_prop))) = None"
    by (simp add: ctx_wildcard_def ex_path_def)
  have w2: "attributes ctx_wildcard (wildcard_path_loader_key (ex_path (prop_id ex_prop))) = Some load_wildcard"
    by (simp add: ctx_wildcard_def ex_path_def)
  have d1: "attributes ctx_default (loader_key (ex_path (prop_id ex_prop))) = None"
    by (simp add: ctx_default_def ex_path_def)
  have d2: "attributes ctx_default (wildcard_path_loader_key (ex_path (prop_id ex_prop))) = None"
    by (simp add: ctx_default_def ex_path_def)
  have d3: "attributes ctx_default (default_path_loader_key (ex_path (prop_id ex_prop))) = Some load_default"
    by (simp add: ctx_default_def ex_path_def)
  have r1: "get_context_loader ex_prop ctx_exact ex_path = Some load_exact"
    using get_context_loader_priority [of ctx_exact ex_path ex_prop load_exact] e1 by blast
  have r2: "get_context_loader ex_prop ctx_wildcard ex_path = Some load_wildcard"
    using get_context_loader_priority [of ctx_wildcard ex_path ex_prop _ load_wildcard] w1 w2
    by blast
  have r3: "get_context_loader ex_prop ctx_default ex_path = Some load_default"
    using get_context_loader_priority [of ctx_default ex_path ex_prop _ _ load_default] d1 d2 d3
    by blast
  show ?thesis using e1 e2 e3 w1 w2 d1 d2 d3 r1 r2 r3 by blast
qed

subsection \<open>Registry lookup along the method resolution order\<close>

lemma lookup_mro_first:
  "\<forall>c \<in> set pre. registered reg c skey = None \<Longrightarrow> registered reg c skey = Some s \<Longrightarrow>
   lookup_mro reg (pre @ c # post) skey = Some s"
  by (induction pre) (auto simp: registered_def split: option.splits)

lemma lookup_mro_none:
  "\<forall>c \<in> set cs. registered reg c skey = None \<Longrightarrow> lookup_mro reg cs skey = None"
  by (induction cs) (auto simp: registered_def split: option.splits)

lemma lookup_mro_Some_iff:
  "lookup_mro reg cs skey = Some s \<longleftrightarrow>
     (\<exists>pre c post. cs = pre @ c # post \<and> (\<forall>c' \<in> set pre. registered reg c' skey = None) \<and>
        registered reg c skey = Some s)"
proof
  show "lookup_mro reg cs skey = Some s \<Longrightarrow>
     (\<exists>pre c post. cs = pre @ c # post \<and> (\<forall>c' \<in> set pre. registered reg c' skey = None) \<and>
        registered reg c skey = Some s)"
  proof (induction cs)
    case Nil
    then show ?case by simp
  next
    case (Cons a cs)
    show ?case
    proof (cases "registered reg a skey")
      case None
      with Cons.prems have "lookup_mro reg cs skey = Some s"
        by (auto simp: registered_def split: option.splits)
      from Cons.IH [OF this] obtain pre c post where
        "cs = pre @ c # post" "\<forall>c' \<in> set pre. registered reg c' skey = None"
        "registered reg c skey = Some s" by blast
      with None have "a # cs = (a # pre) @ c # post \<and>
        (\<forall>c' \<in> set (a # pre). registered reg c' skey = None) \<and> registered reg c skey = Some s"
        by simp
      then show ?thesis by blast
    next
      case (Some t)
      with Cons.prems have "t = s"
        by (auto simp: registered_def split: option.splits)
      with Some have "a # cs = [] @ a # cs \<and>
        (\<forall>c' \<in> set []. registered reg c' skey = None) \<and> registered reg a skey = Some s"
        by simp
      then show ?thesis by blast
    qed
  qed
next
  assume "\<exists>pre c post. cs = pre @ c # post \<and> (\<forall>c' \<in> set pre. registered reg c' skey = None) \<and>
        registered reg c skey = Some s"
  then show "lookup_mro reg cs skey = Some s"
    using lookup_mro_first by blast
qed

text \<open>
  C4. \<open>_strategy_lookup\<close> searches the registry of the requesting class first and then
  the registry of each ancestor in method resolution order, and returns the strategy
  class of the first registry that holds the key: if the key is registered for a class
  \<open>c\<close> of the order and for no class before \<open>c\<close>, the lookup returns what \<open>c\<close> registered.
  So a strategy registered for a base property class is found from a derived class that
  does not register the key itself.
\<close>

theorem strategy_lookup_follows_mro:
  assumes "mro cls = pre @ c # post"
    and "\<forall>c' \<in> set pre. registered reg c' skey = None"
    and "registered reg c skey = Some s"
  shows "strategy_lookup reg cls requesting_property skey = Inr s"
  using lookup_mro_first [OF assms(2,3), of post] assms(1)
  by (simp add: strategy_lookup_def)

theorem strategy_lookup_follows_mro_witness:
  "mro derived_cls = [''MyRelationship''] @ ''RelationshipProperty'' #
      [''StrategizedProperty'', ''MapperProperty'', ''object''] \<and>
   registered ex_reg ''MyRelationship'' key_joined = None \<and>
   registered ex_reg ''RelationshipProperty'' key_joined = Some ''JoinedLoader'' \<and>
   strategy_lookup ex_reg derived_cls 7 key_joined = Inr ''JoinedLoader''"
proof -
  have h1: "mro derived_cls = [''MyRelationship''] @ ''RelationshipProperty'' #
      [''StrategizedProperty'', ''MapperProperty'', ''object'']"
    by (simp add: mro_def derived_cls_def)
  have h2: "\<forall>c' \<in> set [''MyRelationship'']. registered ex_reg c' key_joined = None"
    by (simp add: registered_def ex_reg_value)
  have h3: "registered ex_reg ''RelationshipProperty'' key_joined = Some ''JoinedLoader''"
    by (simp add: registered_def ex_reg_value key_joined_def)
  from strategy_lookup_follows_mro [OF h1 h2 h3]
  have r: "strategy_lookup ex_reg derived_cls 7 key_joined = Inr ''JoinedLoader''" .
  have h2': "registered ex_reg ''MyRelationship'' key_joined = None"
    using h2 by simp
  show ?thesis using h1 h2' h3 r by blast
qed

subsection \<open>Lookup failure\<close>

lemma scan_all_Some:
  "scan_all reg skey = Some (pt, s) \<Longrightarrow>
     \<exists>pre strats post. reg = pre @ (pt, strats) # post \<and> map_of strats skey = Some s \<and>
       list_all (\<lambda>entry. map_of (snd entry) skey = None) pre"
proof (induction reg)
  case Nil
  then show ?case by simp
next
  case (Cons entry reg)
  obtain c d where entry: "entry = (c, d)" by (cases entry)
  show ?case
  proof (cases "map_of d skey")
    case None
    with Cons.prems entry have "scan_all reg skey = Some (pt, s)" by simp
    from Cons.IH [OF this] obtain pre strats post where
      "reg = pre @ (pt, strats) # post" "map_of strats skey = Some s"
      "list_all (\<lambda>entry. map_of (snd entry) skey = None) pre" by blast
    with None entry have "entry # reg = (entry # pre) @ (pt, strats) # post \<and>
      map_of strats skey = Some s \<and>
      list_all (\<lambda>entry. map_of (snd entry) skey = None) (entry # pre)" by simp
    then show ?thesis by blast
  next
    case (Some t)
    with Cons.prems entry have "c = pt" "t = s" by simp_all
    with Some entry have "entry # reg = [] @ (pt, d) # reg \<and> map_of d skey = Some s \<and>
      list_all (\<lambda>entry. map_of (snd entry) skey = None) []" by simp
    then show ?thesis by blast
  qed
qed

lemma scan_all_None:
  "scan_all reg skey = None \<Longrightarrow> list_all (\<lambda>entry. map_of (snd entry) skey = None) reg"
  by (induction reg) (auto split: option.splits)

lemma scan_all_None_registered:
  "scan_all reg skey = None \<Longrightarrow> registered reg c skey = None"
proof -
  assume "scan_all reg skey = None"
  then have all: "list_all (\<lambda>entry. map_of (snd entry) skey = None) reg"
    by (rule scan_all_None)
  show ?thesis
  proof (cases "map_of reg c")
    case None
    then show ?thesis by (simp add: registered_def)
  next
    case (Some d)
    then have "(c, d) \<in> set reg" by (rule map_of_SomeD)
    with all have "map_of d skey = None" by (auto simp: list_all_iff)
    with Some show ?thesis by (simp add: registered_def)
  qed
qed

text \<open>
  C5. When no registry of the requesting class's method resolution order holds the
  key, \<open>_strategy_lookup\<close> raises \<open>LoaderStrategyException\<close> and returns nothing, whatever
  the scan over all registries finds. The exception carries the requesting class, the
  requesting property, the property type and the strategy class of the first registry
  (in insertion order) that holds the key, or \<open>None\<close> for both when no registry at all
  holds it, and the key.
\<close>

theorem strategy_lookup_raises:
  assumes "list_all (\<lambda>c. registered reg c skey = None) (mro cls)"
  shows "strategy_lookup reg cls requesting_property skey =
           Inl (LoaderStrategyException cls requesting_property
                  (map_option fst (scan_all reg skey)) (map_option snd (scan_all reg skey)) skey) \<and>
         (\<forall>pt s. scan_all reg skey = Some (pt, s) \<longrightarrow>
            (\<exists>pre strats post. reg = pre @ (pt, strats) # post \<and> map_of strats skey = Some s \<and>
               list_all (\<lambda>entry. map_of (snd entry) skey = None) pre)) \<and>
         (scan_all reg skey = None \<longrightarrow> (\<forall>c. registered reg c skey = None))"
proof -
  from assms have "lookup_mro reg (mro cls) skey = None"
    by (intro lookup_mro_none) (simp add: list_all_iff)
  then have "strategy_lookup reg cls requesting_property skey =
           Inl (LoaderStrategyException cls requesting_property
                  (map_option fst (scan_all reg skey)) (map_option snd (scan_all reg skey)) skey)"
    by (simp add: strategy_lookup_def split: option.splits)
  then show ?thesis
    using scan_all_Some scan_all_None_registered by blast
qed

theorem strategy_lookup_raises_witness:
  "list_all (\<lambda>c. registered ex_reg c key_joined = None) (mro column_cls) \<and>
   strategy_lookup ex_reg column_cls 3 key_joined =
     Inl (LoaderStrategyException column_cls 3
            (Some ''RelationshipProperty'') (Some ''JoinedLoader'') key_joined)"
proof -
  have h: "list_all (\<lambda>c. registered ex_reg c key_joined = None) (mro column_cls)"
    by (simp add: mro_def column_cls_def registered_def ex_reg_value key_joined_def)
  have s: "scan_all ex_reg key_joined = Some (''RelationshipProperty'', ''JoinedLoader'')"
    by (simp add: ex_reg_value key_joined_def)
  from strategy_lookup_raises [OF h, of 3]
  have "strategy_lookup ex_reg column_cls 3 key_joined =
           Inl (LoaderStrategyException column_cls 3
                  (map_option fst (scan_all ex_reg key_joined))
                  (map_option snd (scan_all ex_reg key_joined)) key_joined)"
    by (rule conjunct1)
  then have r: "strategy_lookup ex_reg column_cls 3 key_joined =
     Inl (LoaderStrategyException column_cls 3
            (Some ''RelationshipProperty'') (Some ''JoinedLoader'') key_joined)"
    by (simp add: s)
  show ?thesis using h r by (rule conjI)
qed

subsection \<open>The order of the pairs of a Strategy Key\<close>

lemma sorted_items_perm:
  assumes "distinct (map fst kw)" and "mset kw' = mset kw"
  shows "sorted_items kw' = sorted_items kw"
proof -
  from assms(2) have "set kw' = set kw" by (rule mset_eq_setD)
  with assms(1) have inj: "inj_on fst (set kw')" by (simp add: distinct_map)
  have m: "mset kw' = mset (sort_key fst kw)" using assms(2) by simp
  have s: "sorted (map fst (sort_key fst kw))" by simp
  from m inj s have "sort_key fst kw' = sort_key fst kw"
    by (rule sort_key_inj_key_eq)
  then show ?thesis by (simp add: sorted_items_def)
qed

lemma registered_strategy_for:
  "registered (all_strategies (strategy_for cls kw dec_cls st)) cls (sorted_items kw) = Some dec_cls"
  by (simp add: registered_def strategy_for_def Let_def update_conv')

text \<open>
  C3, as the code has it. \<open>strategy_for\<close> sorts the pairs of its keyword arguments:
  registering a strategy class under the same pairs in any order writes the same
  registry state, and \<open>_strategy_lookup\<close> from the registering class finds the class
  under the sorted tuple of the same pairs taken in any order. The lookup itself
  compares the tuple as it is passed.
\<close>

theorem strategy_for_order_insensitive:
  assumes "distinct (map fst kw)" and "mset kw' = mset kw"
  shows "strategy_for cls kw' dec_cls st = strategy_for cls kw dec_cls st \<and>
         strategy_lookup (all_strategies (strategy_for cls kw dec_cls st))
           \<lparr>cls_name = cls, cls_ancestors = ancestors\<rparr> requesting_property (sorted_items kw') =
           Inr dec_cls"
proof -
  have eq: "sorted_items kw' = sorted_items kw"
    using assms by (rule sorted_items_perm)
  have "registered (all_strategies (strategy_for cls kw dec_cls st)) cls (sorted_items kw') =
          Some dec_cls"
    by (simp add: eq registered_strategy_for)
  then have "lookup_mro (all_strategies (strategy_for cls kw dec_cls st))
               ([] @ cls # ancestors) (sorted_items kw') = Some dec_cls"
    by (intro lookup_mro_first) simp_all
  then have "strategy_lookup (all_strategies (strategy_for cls kw dec_cls st))
           \<lparr>cls_name = cls, cls_ancestors = ancestors\<rparr> requesting_property (sorted_items kw') =
           Inr dec_cls"
    by (simp add: strategy_lookup_def mro_def)
  moreover have "strategy_for cls kw' dec_cls st = strategy_for cls kw dec_cls st"
    by (simp add: strategy_for_def eq)
  ultimately show ?thesis by simp
qed

theorem strategy_for_order_insensitive_witness:
  "distinct (map fst [(''instrument'', PyTrue), (''deferred'', PyFalse)]) \<and>
   mset [(''deferred'', PyFalse), (''instrument'', PyTrue)] =
     mset [(''instrument'', PyTrue), (''deferred'', PyFalse)] \<and>
   strategy_for ''ColumnProperty'' [(''deferred'', PyFalse), (''instrument'', PyTrue)]
       ''ColumnLoader'' empty_registry =
     strategy_for ''ColumnProperty'' [(''instrument'', PyTrue), (''deferred'', PyFalse)]
       ''ColumnLoader'' empty_registry \<and>
   strategy_lookup
     (all_strategies
        (strategy_for ''ColumnProperty''
           [(''instrument'', PyTrue), (''deferred'', PyFalse)]
           ''ColumnLoader'' empty_registry))
     \<lparr>cls_name = ''ColumnProperty'',
      cls_ancestors = [''StrategizedProperty'', ''MapperProperty'', ''object'']\<rparr> 3
     (sorted_items [(''deferred'', PyFalse), (''instrument'', PyTrue)]) =
     Inr ''ColumnLoader''"
proof -
  have h1: "distinct (map fst [(''instrument'', PyTrue), (''deferred'', PyFalse)])"
    by simp
  have h2: "mset [(''deferred'', PyFalse), (''instrument'', PyTrue)] =
     mset [(''instrument'', PyTrue), (''deferred'', PyFalse)]"
    by simp
  from strategy_for_order_insensitive [OF h1 h2, of "''ColumnProperty''" "''ColumnLoader''"
      empty_registry "[''StrategizedProperty'', ''MapperProperty'', ''object'']" 3]
  show ?thesis using h1 h2 by blast
qed

text \<open>
  C3, as the specification states it, fails: \<open>_strategy_lookup\<close> does not sort. The column
  loader is registered with \<open>strategy_for(instrument=True, deferred=False)\<close>; the lookup
  of the sorted tuple finds it, the lookup of the same two pairs in the other order
  raises.
\<close>

theorem lookup_unsorted_key_counterexample:
  "strategy_lookup ex_reg column_cls 3
     [(''deferred'', PyFalse), (''instrument'', PyTrue)] = Inr ''ColumnLoader'' \<and>
   strategy_lookup ex_reg column_cls 3
     [(''instrument'', PyTrue), (''deferred'', PyFalse)] =
     Inl (LoaderStrategyException column_cls 3 None None
            [(''instrument'', PyTrue), (''deferred'', PyFalse)])"
  by (simp add: strategy_lookup_def ex_reg_value mro_def column_cls_def)

subsection \<open>Loader options\<close>

text \<open>
  C9. For a \<open>LoaderOption\<close>, \<open>process_compile_state_replaced_entities(compile_state,
  mapper_entities)\<close> does what \<open>process_compile_state(compile_state)\<close> does, whatever
  the replaced entities are.
\<close>

theorem loader_option_redispatch:
  "opt_base self = LoaderOption \<Longrightarrow>
     process_compile_state_replaced_entities self compile_state mapper_entities =
       process_compile_state self compile_state"
  by (simp add: process_compile_state_replaced_entities_def)

theorem loader_option_redispatch_witness:
  "opt_base ex_loader_option = LoaderOption \<and>
   process_compile_state_replaced_entities ex_loader_option 5 [1, 2] =
     process_compile_state ex_loader_option 5 \<and>
   process_compile_state ex_loader_option 5 = Inr 6"
proof -
  have h: "opt_base ex_loader_option = LoaderOption"
    by (simp add: ex_loader_option_def)
  have v: "process_compile_state ex_loader_option 5 = Inr 6"
    by (simp add: process_compile_state_def ex_loader_option_def)
  from loader_option_redispatch [OF h, of 5 "[1, 2]"] h v show ?thesis by blast
qed

text \<open>
  The other two option classes keep the body of \<open>CompileStateOption\<close>, which leaves the
  compile state alone.
\<close>

lemma replaced_entities_base:
  "opt_base self \<noteq> LoaderOption \<Longrightarrow>
     process_compile_state_replaced_entities self compile_state mapper_entities =
       Inr compile_state"
  by (cases "opt_base self") (simp_all add: process_compile_state_replaced_entities_def)

subsection \<open>The example property\<close>

lemma ex_lookup_select:
  "strategy_lookup ex_reg relationship_cls 7 key_select = Inr ''LazyLoader''"
  by (simp add: strategy_lookup_def ex_reg_value mro_def relationship_cls_def key_select_def)

lemma ex_lookup_true:
  "strategy_lookup ex_reg relationship_cls 7 key_true = Inr ''LazyLoader''"
  by (simp add: strategy_lookup_def ex_reg_value mro_def relationship_cls_def key_true_def)

lemma ex_lookup_joined:
  "strategy_lookup ex_reg relationship_cls 7 key_joined = Inr ''JoinedLoader''"
  by (simp add: strategy_lookup_def ex_reg_value mro_def relationship_cls_def key_joined_def)

lemma ex_init:
  "init ex_reg ex_state =
     (Inr (),
      \<lparr>st_heap = [LoaderStrategy_init ''LazyLoader''
                    (ex_prop\<lparr>configure_started := True, prop_strategies := Some Map.empty\<rparr>)
                    key_select],
       st_prop = ex_prop\<lparr>configure_started := True,
                         prop_strategies := Some [key_select \<mapsto> 0],
                         prop_strategy := Some 0,
                         configure_finished := True\<rparr>\<rparr>)"
  by (simp add: init_def do_init_def get_strategy_def Let_def ex_state_def ex_lookup_select
      ex_prop_def MapperProperty_init_def)

lemma ex_initialized_value:
  "ex_initialized =
      \<lparr>st_heap = [LoaderStrategy_init ''LazyLoader''
                    (ex_prop\<lparr>configure_started := True, prop_strategies := Some Map.empty\<rparr>)
                    key_select],
       st_prop = ex_prop\<lparr>configure_started := True,
                         prop_strategies := Some [key_select \<mapsto> 0],
                         prop_strategy := Some 0,
                         configure_finished := True\<rparr>\<rparr>"
  by (simp add: ex_initialized_def ex_init)

lemma ex_initialized_fields:
  "prop_strategies (st_prop ex_initialized) = Some [key_select \<mapsto> 0]"
  "prop_strategy (st_prop ex_initialized) = Some 0"
  "prop_cls (st_prop ex_initialized) = relationship_cls"
  "prop_id (st_prop ex_initialized) = 7"
  "prop_key (st_prop ex_initialized) = ''addresses''"
  "prop_parent (st_prop ex_initialized) = ex_mapper"
  "length (st_heap ex_initialized) = 1"
  by (simp_all add: ex_initialized_value ex_prop_def MapperProperty_init_def)

lemma key_distinct:
  "key_joined \<noteq> key_select" "key_true \<noteq> key_select" "key_joined \<noteq> key_true"
  "key_joined \<noteq> []" "key_true \<noteq> []" "key_select \<noteq> []"
  by (simp_all add: key_joined_def key_select_def key_true_def)

lemma ex_get_joined:
  "get_strategy ex_reg ex_initialized key_joined =
     (Inr 1,
      \<lparr>st_heap = st_heap ex_initialized @
                   [LoaderStrategy_init ''JoinedLoader'' (st_prop ex_initialized) key_joined],
       st_prop = (st_prop ex_initialized)
                   \<lparr>prop_strategies := Some [key_select \<mapsto> 0, key_joined \<mapsto> 1]\<rparr>\<rparr>)"
  by (simp add: get_strategy_def Let_def ex_initialized_fields key_distinct ex_lookup_joined)

subsection \<open>Class-attribute instrumentation\<close>

text \<open>
  C8. \<open>post_instrument_class(mapper)\<close> of a property whose default strategy is
  initialised calls \<open>init_class_attribute(mapper)\<close> on that strategy exactly when the
  parent is not a non-primary mapper and the class manager of \<open>mapper\<close> has no
  implementation for the property's key. When either condition fails it makes no call.
\<close>

theorem post_instrument_class_condition:
  "(non_primary (prop_parent (st_prop st)) \<or> attr_has_impl mpr (prop_key (st_prop st)) \<longrightarrow>
      post_instrument_class st mpr = Inr None) \<and>
   (\<not> non_primary (prop_parent (st_prop st)) \<and> \<not> attr_has_impl mpr (prop_key (st_prop st)) \<and>
    prop_strategy (st_prop st) = Some strat \<longrightarrow>
      post_instrument_class st mpr = Inr (Some (Init_class_attribute strat mpr))) \<and>
   (post_instrument_class st mpr = Inr (Some c) \<longrightarrow>
      \<not> non_primary (prop_parent (st_prop st)) \<and> \<not> attr_has_impl mpr (prop_key (st_prop st)) \<and>
      (\<exists>strat. prop_strategy (st_prop st) = Some strat \<and> c = Init_class_attribute strat mpr))"
  by (auto simp: post_instrument_class_def Let_def split: option.splits if_splits)

theorem post_instrument_class_condition_witness:
  "\<not> non_primary (prop_parent (st_prop ex_initialized)) \<and>
   \<not> attr_has_impl ex_mapper (prop_key (st_prop ex_initialized)) \<and>
   prop_strategy (st_prop ex_initialized) = Some 0 \<and>
   post_instrument_class ex_initialized ex_mapper = Inr (Some (Init_class_attribute 0 ex_mapper)) \<and>
   attr_has_impl mapper_with_impl (prop_key (st_prop ex_initialized)) \<and>
   post_instrument_class ex_initialized mapper_with_impl = Inr None"
proof -
  have h1: "\<not> non_primary (prop_parent (st_prop ex_initialized))"
    by (simp add: ex_initialized_fields ex_mapper_def)
  have h2: "\<not> attr_has_impl ex_mapper (prop_key (st_prop ex_initialized))"
    by (simp add: ex_initialized_fields ex_mapper_def attr_has_impl_def)
  have h3: "prop_strategy (st_prop ex_initialized) = Some 0"
    by (simp add: ex_initialized_fields)
  have h4: "attr_has_impl mapper_with_impl (prop_key (st_prop ex_initialized))"
    by (simp add: ex_initialized_fields mapper_with_impl_def attr_has_impl_def)
  have r1: "post_instrument_class ex_initialized ex_mapper =
              Inr (Some (Init_class_attribute 0 ex_mapper))"
    using post_instrument_class_condition [of ex_initialized ex_mapper 0] h1 h2 h3 by blast
  have r2: "post_instrument_class ex_initialized mapper_with_impl = Inr None"
    using post_instrument_class_condition [of ex_initialized mapper_with_impl] h4 by blast
  show ?thesis using h1 h2 h3 h4 r1 r2 by blast
qed

subsection \<open>The strategy a call is handed to\<close>

lemma loader_strategy_of_None:
  "loader_strategy_of loader = None \<longleftrightarrow>
     loader = None \<or>
     (\<exists>ld. loader = Some ld \<and> (load_strategy ld = None \<or> load_strategy ld = Some []))"
  by (auto simp: loader_strategy_of_def split: option.splits)

lemma loader_strategy_of_Some:
  "loader_strategy_of loader = Some skey \<longleftrightarrow>
     (\<exists>ld. loader = Some ld \<and> load_strategy ld = Some skey \<and> skey \<noteq> [])"
  by (auto simp: loader_strategy_of_def split: option.splits)

text \<open>
  C7. \<open>setup\<close> and \<open>create_row_processor\<close>: when the probe of the ambient options finds
  no load option, or one whose \<open>strategy\<close> is \<open>None\<close> or empty, the call goes to the
  property's default strategy instance \<open>self.strategy\<close>, and the property is left as it
  was; when the load option names a strategy, the call goes to the instance that
  \<open>_get_strategy\<close> resolves for that Strategy Key, and an exception of the resolution
  is passed on. The load option found is handed over with the call.
\<close>

theorem strategy_delegation:
  "((get_context_loader (st_prop st) ctx pth = None \<or>
     (\<exists>ld. get_context_loader (st_prop st) ctx pth = Some ld \<and>
        (load_strategy ld = None \<or> load_strategy ld = Some []))) \<and>
    prop_strategy (st_prop st) = Some strat \<longrightarrow>
      prop_setup reg st ctx query_entity pth adapter kwargs =
        (Inr (Setup_query strat ctx query_entity pth
                (get_context_loader (st_prop st) ctx pth) adapter kwargs), st) \<and>
      create_row_processor reg st ctx query_entity pth mpr result adapter populators =
        (Inr (Create_row_processor strat ctx query_entity pth
                (get_context_loader (st_prop st) ctx pth) mpr result adapter populators), st)) \<and>
   (get_context_loader (st_prop st) ctx pth = Some ld \<and> load_strategy ld = Some skey \<and>
    skey \<noteq> [] \<longrightarrow>
      prop_setup reg st ctx query_entity pth adapter kwargs =
        (case get_strategy reg st skey of
           (Inl e, st') \<Rightarrow> (Inl e, st')
         | (Inr resolved, st') \<Rightarrow>
             (Inr (Setup_query resolved ctx query_entity pth (Some ld) adapter kwargs), st')) \<and>
      create_row_processor reg st ctx query_entity pth mpr result adapter populators =
        (case get_strategy reg st skey of
           (Inl e, st') \<Rightarrow> (Inl e, st')
         | (Inr resolved, st') \<Rightarrow>
             (Inr (Create_row_processor resolved ctx query_entity pth (Some ld) mpr result
                     adapter populators), st')))"
proof -
  have a: "prop_setup reg st ctx query_entity pth adapter kwargs =
        (Inr (Setup_query strat ctx query_entity pth
                (get_context_loader (st_prop st) ctx pth) adapter kwargs), st) \<and>
      create_row_processor reg st ctx query_entity pth mpr result adapter populators =
        (Inr (Create_row_processor strat ctx query_entity pth
                (get_context_loader (st_prop st) ctx pth) mpr result adapter populators), st)"
    if "get_context_loader (st_prop st) ctx pth = None \<or>
         (\<exists>ld. get_context_loader (st_prop st) ctx pth = Some ld \<and>
            (load_strategy ld = None \<or> load_strategy ld = Some []))"
      and "prop_strategy (st_prop st) = Some strat"
  proof -
    from that(1) have "loader_strategy_of (get_context_loader (st_prop st) ctx pth) = None"
      by (simp add: loader_strategy_of_None)
    with that(2) show ?thesis
      by (simp add: prop_setup_def create_row_processor_def select_strategy_def Let_def)
  qed
  have b: "prop_setup reg st ctx query_entity pth adapter kwargs =
        (case get_strategy reg st skey of
           (Inl e, st') \<Rightarrow> (Inl e, st')
         | (Inr resolved, st') \<Rightarrow>
             (Inr (Setup_query resolved ctx query_entity pth (Some ld) adapter kwargs), st')) \<and>
      create_row_processor reg st ctx query_entity pth mpr result adapter populators =
        (case get_strategy reg st skey of
           (Inl e, st') \<Rightarrow> (Inl e, st')
         | (Inr resolved, st') \<Rightarrow>
             (Inr (Create_row_processor resolved ctx query_entity pth (Some ld) mpr result
                     adapter populators), st'))"
    if "get_context_loader (st_prop st) ctx pth = Some ld"
      and "load_strategy ld = Some skey" and "skey \<noteq> []"
  proof -
    from that(2,3) have "loader_strategy_of (Some ld) = Some skey"
      by (simp add: loader_strategy_of_Some)
    with that(1) show ?thesis
      by (simp add: prop_setup_def create_row_processor_def select_strategy_def Let_def)
  qed
  show ?thesis
    using a b by blast
qed

theorem strategy_delegation_witness:
  "get_context_loader (st_prop ex_initialized) ctx_default ex_path = Some load_default \<and>
   load_strategy load_default = None \<and>
   prop_strategy (st_prop ex_initialized) = Some 0 \<and>
   prop_setup ex_reg ex_initialized ctx_default 11 ex_path 12 [] =
     (Inr (Setup_query 0 ctx_default 11 ex_path (Some load_default) 12 []), ex_initialized) \<and>
   get_context_loader (st_prop ex_initialized) ctx_exact ex_path = Some load_exact \<and>
   load_strategy load_exact = Some key_joined \<and>
   key_joined \<noteq> [] \<and>
   prop_setup ex_reg ex_initialized ctx_exact 11 ex_path 12 [] =
     (Inr (Setup_query 1 ctx_exact 11 ex_path (Some load_exact) 12 []),
      snd (get_strategy ex_reg ex_initialized key_joined))"
proof -
  have d1: "get_context_loader (st_prop ex_initialized) ctx_default ex_path = Some load_default"
    by (simp add: get_context_loader_def ctx_default_def ex_path_def)
  have d2: "load_strategy load_default = None"
    by (simp add: load_default_def)
  have d3: "prop_strategy (st_prop ex_initialized) = Some 0"
    by (simp add: ex_initialized_fields)
  have e1: "get_context_loader (st_prop ex_initialized) ctx_exact ex_path = Some load_exact"
    by (simp add: get_context_loader_def ctx_exact_def ex_path_def)
  have e2: "load_strategy load_exact = Some key_joined"
    by (simp add: load_exact_def)
  have e3: "key_joined \<noteq> []"
    by (simp add: key_distinct)
  have r1: "prop_setup ex_reg ex_initialized ctx_default 11 ex_path 12 [] =
     (Inr (Setup_query 0 ctx_default 11 ex_path (Some load_default) 12 []), ex_initialized)"
    using strategy_delegation [of ex_initialized ctx_default ex_path 0 ex_reg 11 12 "[]"]
      d1 d2 d3 by simp
  have "prop_setup ex_reg ex_initialized ctx_exact 11 ex_path 12 [] =
        (case get_strategy ex_reg ex_initialized key_joined of
           (Inl e, st') \<Rightarrow> (Inl e, st')
         | (Inr resolved, st') \<Rightarrow>
             (Inr (Setup_query resolved ctx_exact 11 ex_path (Some load_exact) 12 []), st'))"
    using strategy_delegation [of ex_initialized ctx_exact ex_path _ ex_reg 11 12 "[]" _ _ _
        load_exact key_joined] e1 e2 e3 by blast
  then have r2: "prop_setup ex_reg ex_initialized ctx_exact 11 ex_path 12 [] =
     (Inr (Setup_query 1 ctx_exact 11 ex_path (Some load_exact) 12 []),
      snd (get_strategy ex_reg ex_initialized key_joined))"
    by (simp add: ex_get_joined)
  show ?thesis using d1 d2 d3 e1 e2 e3 r1 r2 by blast
qed

subsection \<open>Memoized strategy instances\<close>

lemma get_strategy_returns:
  "get_strategy reg st skey = (Inr a, st') \<longleftrightarrow>
     (\<exists>cache. prop_strategies (st_prop st) = Some cache \<and>
        (cache skey = Some a \<and> st' = st \<or>
         cache skey = None \<and> a = length (st_heap st) \<and>
         (\<exists>cls. strategy_lookup reg (prop_cls (st_prop st)) (prop_id (st_prop st)) skey = Inr cls \<and>
            st' = \<lparr>st_heap = st_heap st @ [LoaderStrategy_init cls (st_prop st) skey],
                   st_prop = (st_prop st)\<lparr>prop_strategies := Some (cache(skey \<mapsto> a))\<rparr>\<rparr>)))"
  by (auto simp: get_strategy_def Let_def split: option.splits sum.splits)

lemma get_strategy_hit:
  "prop_strategies (st_prop st) = Some cache \<Longrightarrow> cache skey = Some a \<Longrightarrow>
     get_strategy reg st skey = (Inr a, st)"
  by (simp add: get_strategy_def)

lemma strategy_lookup_Inr:
  "strategy_lookup reg cls requesting_property skey = Inr found \<longleftrightarrow>
     lookup_mro reg (mro cls) skey = Some found"
  by (auto simp: strategy_lookup_def split: option.splits)

subsection \<open>The options of a strategy instance\<close>

lemma foldl_upd_map_of:
  "foldl (\<lambda>m (k, v). m(k \<mapsto> v)) m ps = m ++ map_of (rev ps)"
  by (induction ps arbitrary: m) (auto simp: map_add_upd_left fun_eq_iff map_add_def split: option.splits)

lemma py_dict_map_of: "py_dict ps = map_of (rev ps)"
  by (simp add: py_dict_def foldl_upd_map_of)

lemma py_dict_distinct:
  "distinct (map fst ps) \<Longrightarrow> py_dict ps = map_of ps"
  unfolding py_dict_map_of
  by (rule ext) (metis distinct_rev map_of_inject_set rev_map set_rev)

subsection \<open>What a cached instance holds\<close>

lemma ex_get_true:
  "get_strategy ex_reg ex_initialized key_true =
     (Inr 1,
      \<lparr>st_heap = st_heap ex_initialized @
                   [LoaderStrategy_init ''LazyLoader'' (st_prop ex_initialized) key_true],
       st_prop = (st_prop ex_initialized)
                   \<lparr>prop_strategies := Some [key_select \<mapsto> 0, key_true \<mapsto> 1]\<rparr>\<rparr>)"
  by (simp add: get_strategy_def Let_def ex_initialized_fields key_distinct ex_lookup_true)

lemma cache_ok_miss:
  assumes ok: "cache_ok st"
    and cache: "prop_strategies (st_prop st) = Some cache"
  shows "cache_ok \<lparr>st_heap = st_heap st @ [LoaderStrategy_init cls (st_prop st) skey],
                   st_prop = (st_prop st)\<lparr>prop_strategies :=
                                Some (cache(skey \<mapsto> length (st_heap st)))\<rparr>\<rparr>"
  unfolding cache_ok_def
proof (intro allI impI)
  fix cache' k a
  assume c': "prop_strategies
                (st_prop \<lparr>st_heap = st_heap st @ [LoaderStrategy_init cls (st_prop st) skey],
                   st_prop = (st_prop st)\<lparr>prop_strategies :=
                                Some (cache(skey \<mapsto> length (st_heap st)))\<rparr>\<rparr>) = Some cache'"
    and hit: "cache' k = Some a"
  from c' have eq: "cache' = cache(skey \<mapsto> length (st_heap st))" by simp
  show "a < length (st_heap \<lparr>st_heap = st_heap st @ [LoaderStrategy_init cls (st_prop st) skey],
                   st_prop = (st_prop st)\<lparr>prop_strategies :=
                                Some (cache(skey \<mapsto> length (st_heap st)))\<rparr>\<rparr>) \<and>
        ls_strategy_key (st_heap \<lparr>st_heap = st_heap st @ [LoaderStrategy_init cls (st_prop st) skey],
                   st_prop = (st_prop st)\<lparr>prop_strategies :=
                                Some (cache(skey \<mapsto> length (st_heap st)))\<rparr>\<rparr> ! a) = k \<and>
        strategy_opts (st_heap \<lparr>st_heap = st_heap st @ [LoaderStrategy_init cls (st_prop st) skey],
                   st_prop = (st_prop st)\<lparr>prop_strategies :=
                                Some (cache(skey \<mapsto> length (st_heap st)))\<rparr>\<rparr> ! a) =
          map_of (rev k) \<and>
        parent_property (st_heap \<lparr>st_heap = st_heap st @ [LoaderStrategy_init cls (st_prop st) skey],
                   st_prop = (st_prop st)\<lparr>prop_strategies :=
                                Some (cache(skey \<mapsto> length (st_heap st)))\<rparr>\<rparr> ! a) =
          prop_id (st_prop \<lparr>st_heap = st_heap st @ [LoaderStrategy_init cls (st_prop st) skey],
                   st_prop = (st_prop st)\<lparr>prop_strategies :=
                                Some (cache(skey \<mapsto> length (st_heap st)))\<rparr>\<rparr>)"
  proof (cases "k = skey")
    case True
    with hit eq have "a = length (st_heap st)" by simp
    with True show ?thesis by (simp add: LoaderStrategy_init_def py_dict_map_of)
  next
    case False
    with hit eq have "cache k = Some a" by simp
    with ok cache have old: "a < length (st_heap st)" "ls_strategy_key (st_heap st ! a) = k"
      "strategy_opts (st_heap st ! a) = map_of (rev k)"
      "parent_property (st_heap st ! a) = prop_id (st_prop st)"
      unfolding cache_ok_def by blast+
    then show ?thesis by (simp add: nth_append)
  qed
qed

lemma cache_ok_get_strategy:
  assumes "cache_ok st" and "get_strategy reg st skey = (Inr a, st')"
  shows "cache_ok st'"
proof -
  from assms(2) obtain cache where cache: "prop_strategies (st_prop st) = Some cache"
    and cases: "cache skey = Some a \<and> st' = st \<or>
         cache skey = None \<and> a = length (st_heap st) \<and>
         (\<exists>cls. strategy_lookup reg (prop_cls (st_prop st)) (prop_id (st_prop st)) skey = Inr cls \<and>
            st' = \<lparr>st_heap = st_heap st @ [LoaderStrategy_init cls (st_prop st) skey],
                   st_prop = (st_prop st)\<lparr>prop_strategies := Some (cache(skey \<mapsto> a))\<rparr>\<rparr>)"
    unfolding get_strategy_returns by blast
  from cases show ?thesis
  proof
    assume "cache skey = Some a \<and> st' = st"
    with assms(1) show ?thesis by simp
  next
    assume "cache skey = None \<and> a = length (st_heap st) \<and>
         (\<exists>cls. strategy_lookup reg (prop_cls (st_prop st)) (prop_id (st_prop st)) skey = Inr cls \<and>
            st' = \<lparr>st_heap = st_heap st @ [LoaderStrategy_init cls (st_prop st) skey],
                   st_prop = (st_prop st)\<lparr>prop_strategies := Some (cache(skey \<mapsto> a))\<rparr>\<rparr>)"
    then obtain cls where "st' = \<lparr>st_heap = st_heap st @ [LoaderStrategy_init cls (st_prop st) skey],
                   st_prop = (st_prop st)\<lparr>prop_strategies :=
                      Some (cache(skey \<mapsto> length (st_heap st)))\<rparr>\<rparr>"
      by blast
    with cache_ok_miss [OF assms(1) cache] show ?thesis by simp
  qed
qed

lemma cache_ok_empty:
  "prop_strategies (st_prop st) = Some Map.empty \<Longrightarrow> cache_ok st"
  by (simp add: cache_ok_def)

lemma cache_ok_ex_initialized: "cache_ok ex_initialized"
proof -
  have "cache_ok \<lparr>st_heap = [], st_prop = ex_prop\<lparr>configure_started := True,
                                            prop_strategies := Some Map.empty\<rparr>\<rparr>"
    by (simp add: cache_ok_empty)
  moreover have "get_strategy ex_reg
      \<lparr>st_heap = [], st_prop = ex_prop\<lparr>configure_started := True,
                                     prop_strategies := Some Map.empty\<rparr>\<rparr> key_select =
      (Inr 0, \<lparr>st_heap = [LoaderStrategy_init ''LazyLoader''
                    (ex_prop\<lparr>configure_started := True, prop_strategies := Some Map.empty\<rparr>)
                    key_select],
       st_prop = ex_prop\<lparr>configure_started := True,
                         prop_strategies := Some [key_select \<mapsto> 0]\<rparr>\<rparr>)"
    by (simp add: get_strategy_def Let_def ex_lookup_select ex_prop_def MapperProperty_init_def)
  ultimately have "cache_ok \<lparr>st_heap = [LoaderStrategy_init ''LazyLoader''
                    (ex_prop\<lparr>configure_started := True, prop_strategies := Some Map.empty\<rparr>)
                    key_select],
       st_prop = ex_prop\<lparr>configure_started := True,
                         prop_strategies := Some [key_select \<mapsto> 0]\<rparr>\<rparr>"
    by (rule cache_ok_get_strategy)
  then show ?thesis
    by (simp add: ex_initialized_value cache_ok_def)
qed

text \<open>
  C10. The strategy cache is keyed by the Strategy Key. From a state whose cache is
  sound, the instance \<open>_get_strategy(K)\<close> returns has \<open>strategy_key\<close> equal to \<open>K\<close>, its
  \<open>strategy_opts\<close> is the dictionary of the pairs of \<open>K\<close> (a name is mapped to the value
  of its last pair; when the names of \<open>K\<close> are distinct, a name is mapped to a value
  exactly when the pair is in \<open>K\<close>), and its \<open>parent_property\<close> is the owning property;
  it is cached under \<open>K\<close>, and the cache stays sound. When the call builds the
  instance (a miss), the instance is of the class the registry lookup gives,
  \<open>is_class_level\<close> is false and \<open>parent\<close> and \<open>key\<close> are those of the owning property.
  A later call with a different key returns a different instance, whichever strategy
  class the two keys resolve to, and both stay cached.
\<close>

theorem get_strategy_keyed_by_key:
  assumes "cache_ok st" and "get_strategy reg st skey = (Inr a, st')"
  shows "a < length (st_heap st') \<and>
         ls_strategy_key (st_heap st' ! a) = skey \<and>
         strategy_opts (st_heap st' ! a) = map_of (rev skey) \<and>
         (distinct (map fst skey) \<longrightarrow>
            (\<forall>name v. strategy_opts (st_heap st' ! a) name = Some v \<longleftrightarrow>
                        (name, v) \<in> set skey)) \<and>
         parent_property (st_heap st' ! a) = prop_id (st_prop st) \<and>
         (\<exists>cache'. prop_strategies (st_prop st') = Some cache' \<and> cache' skey = Some a) \<and>
         cache_ok st' \<and>
         (\<forall>cache. prop_strategies (st_prop st) = Some cache \<longrightarrow> cache skey = None \<longrightarrow>
            a = length (st_heap st) \<and>
            strategy_lookup reg (prop_cls (st_prop st)) (prop_id (st_prop st)) skey =
              Inr (ls_cls (st_heap st' ! a)) \<and>
            \<not> is_class_level (st_heap st' ! a) \<and>
            ls_parent (st_heap st' ! a) = prop_parent (st_prop st) \<and>
            ls_key (st_heap st' ! a) = prop_key (st_prop st)) \<and>
         (\<forall>skey' a' st''. skey' \<noteq> skey \<longrightarrow> get_strategy reg st' skey' = (Inr a', st'') \<longrightarrow>
            a' \<noteq> a \<and>
            (\<exists>cache''. prop_strategies (st_prop st'') = Some cache'' \<and>
               cache'' skey = Some a \<and> cache'' skey' = Some a'))"
proof -
  have ok': "cache_ok st'"
    using assms by (rule cache_ok_get_strategy)
  from assms(2) obtain cache where cache: "prop_strategies (st_prop st) = Some cache"
    and cases: "cache skey = Some a \<and> st' = st \<or>
         cache skey = None \<and> a = length (st_heap st) \<and>
         (\<exists>cls. strategy_lookup reg (prop_cls (st_prop st)) (prop_id (st_prop st)) skey = Inr cls \<and>
            st' = \<lparr>st_heap = st_heap st @ [LoaderStrategy_init cls (st_prop st) skey],
                   st_prop = (st_prop st)\<lparr>prop_strategies := Some (cache(skey \<mapsto> a))\<rparr>\<rparr>)"
    unfolding get_strategy_returns by blast
  from cases cache have cached: "\<exists>cache'. prop_strategies (st_prop st') = Some cache' \<and>
      cache' skey = Some a"
    by auto
  from cases have same_id: "prop_id (st_prop st') = prop_id (st_prop st)"
    by auto
  from cached ok' same_id have fields: "a < length (st_heap st')"
    "ls_strategy_key (st_heap st' ! a) = skey"
    "strategy_opts (st_heap st' ! a) = map_of (rev skey)"
    "parent_property (st_heap st' ! a) = prop_id (st_prop st)"
    unfolding cache_ok_def by auto
  have pairs: "strategy_opts (st_heap st' ! a) name = Some v \<longleftrightarrow> (name, v) \<in> set skey"
    if "distinct (map fst skey)" for name v
  proof -
    from that have "distinct (map fst (rev skey))"
      by (simp add: rev_map [symmetric])
    then have "map_of (rev skey) name = Some v \<longleftrightarrow> (name, v) \<in> set (rev skey)"
      by (rule map_of_eq_Some_iff)
    with fields(3) show ?thesis by simp
  qed
  have built: "a = length (st_heap st) \<and>
            strategy_lookup reg (prop_cls (st_prop st)) (prop_id (st_prop st)) skey =
              Inr (ls_cls (st_heap st' ! a)) \<and>
            \<not> is_class_level (st_heap st' ! a) \<and>
            ls_parent (st_heap st' ! a) = prop_parent (st_prop st) \<and>
            ls_key (st_heap st' ! a) = prop_key (st_prop st)"
    if "prop_strategies (st_prop st) = Some cache0" and "cache0 skey = None" for cache0
    using cases cache that by (auto simp: LoaderStrategy_init_def)
  have later: "a' \<noteq> a \<and>
            (\<exists>cache''. prop_strategies (st_prop st'') = Some cache'' \<and>
               cache'' skey = Some a \<and> cache'' skey' = Some a')"
    if neq: "skey' \<noteq> skey" and call: "get_strategy reg st' skey' = (Inr a', st'')"
    for skey' a' st''
  proof -
    from cached obtain cache' where c': "prop_strategies (st_prop st') = Some cache'"
      "cache' skey = Some a" by blast
    from call c'(1) have cases': "cache' skey' = Some a' \<and> st'' = st' \<or>
         cache' skey' = None \<and> a' = length (st_heap st') \<and>
         (\<exists>cls. st'' = \<lparr>st_heap = st_heap st' @ [LoaderStrategy_init cls (st_prop st') skey'],
                   st_prop = (st_prop st')\<lparr>prop_strategies := Some (cache'(skey' \<mapsto> a'))\<rparr>\<rparr>)"
      unfolding get_strategy_returns by auto
    from cases' show ?thesis
    proof
      assume hit: "cache' skey' = Some a' \<and> st'' = st'"
      with ok' c'(1) have "ls_strategy_key (st_heap st' ! a') = skey'"
        unfolding cache_ok_def by blast
      with fields(2) neq have "a' \<noteq> a" by auto
      with hit c' show ?thesis by auto
    next
      assume miss: "cache' skey' = None \<and> a' = length (st_heap st') \<and>
         (\<exists>cls. st'' = \<lparr>st_heap = st_heap st' @ [LoaderStrategy_init cls (st_prop st') skey'],
                   st_prop = (st_prop st')\<lparr>prop_strategies := Some (cache'(skey' \<mapsto> a'))\<rparr>\<rparr>)"
      with fields(1) have "a' \<noteq> a" by simp
      with miss c' neq show ?thesis by auto
    qed
  qed
  from fields pairs cached ok' built later show ?thesis by blast
qed

theorem get_strategy_keyed_by_key_witness:
  "cache_ok ex_initialized \<and>
   get_strategy ex_reg ex_initialized key_true =
     (Inr 1, snd (get_strategy ex_reg ex_initialized key_true)) \<and>
   ls_strategy_key (st_heap (snd (get_strategy ex_reg ex_initialized key_true)) ! 1) = key_true \<and>
   strategy_opts (st_heap (snd (get_strategy ex_reg ex_initialized key_true)) ! 1) ''lazy'' =
     Some PyTrue \<and>
   strategy_opts (st_heap (snd (get_strategy ex_reg ex_initialized key_true)) ! 1) ''innerjoin'' =
     None \<and>
   ls_cls (st_heap (snd (get_strategy ex_reg ex_initialized key_true)) ! 1) = ''LazyLoader'' \<and>
   ls_cls (st_heap (snd (get_strategy ex_reg ex_initialized key_true)) ! 0) = ''LazyLoader'' \<and>
   ls_strategy_key (st_heap (snd (get_strategy ex_reg ex_initialized key_true)) ! 0) = key_select"
proof -
  have h1: "cache_ok ex_initialized"
    by (rule cache_ok_ex_initialized)
  have h2: "get_strategy ex_reg ex_initialized key_true =
     (Inr 1, snd (get_strategy ex_reg ex_initialized key_true))"
    by (simp add: ex_get_true)
  from get_strategy_keyed_by_key [OF h1 h2]
  have r: "ls_strategy_key (st_heap (snd (get_strategy ex_reg ex_initialized key_true)) ! 1) =
             key_true"
    "strategy_opts (st_heap (snd (get_strategy ex_reg ex_initialized key_true)) ! 1) =
       map_of (rev key_true)"
    by blast+
  from r(2) have o1:
    "strategy_opts (st_heap (snd (get_strategy ex_reg ex_initialized key_true)) ! 1) ''lazy'' =
       Some PyTrue"
    by (simp add: key_true_def)
  from r(2) have o2:
    "strategy_opts (st_heap (snd (get_strategy ex_reg ex_initialized key_true)) ! 1)
       ''innerjoin'' = None"
    by (simp add: key_true_def)
  have st: "snd (get_strategy ex_reg ex_initialized key_true) =
      \<lparr>st_heap = st_heap ex_initialized @
                   [LoaderStrategy_init ''LazyLoader'' (st_prop ex_initialized) key_true],
       st_prop = (st_prop ex_initialized)
                   \<lparr>prop_strategies := Some [key_select \<mapsto> 0, key_true \<mapsto> 1]\<rparr>\<rparr>"
    by (simp add: ex_get_true)
  have c1: "ls_cls (st_heap (snd (get_strategy ex_reg ex_initialized key_true)) ! 1) =
              ''LazyLoader''"
    unfolding st by (simp add: ex_initialized_value LoaderStrategy_init_def)
  have c0: "ls_cls (st_heap (snd (get_strategy ex_reg ex_initialized key_true)) ! 0) =
              ''LazyLoader''"
    unfolding st by (simp add: ex_initialized_value LoaderStrategy_init_def)
  have k0: "ls_strategy_key (st_heap (snd (get_strategy ex_reg ex_initialized key_true)) ! 0) =
              key_select"
    unfolding st by (simp add: ex_initialized_value LoaderStrategy_init_def)
  from h1 h2 r(1) o1 o2 c1 c0 k0 show ?thesis by blast
qed

subsection \<open>The configuration flags\<close>

lemma get_strategy_flags:
  "configure_started (st_prop (snd (get_strategy reg st skey))) = configure_started (st_prop st)"
  "configure_finished (st_prop (snd (get_strategy reg st skey))) = configure_finished (st_prop st)"
  by (simp_all add: get_strategy_def Let_def split: option.splits sum.splits)

lemma do_init_flags:
  "configure_started (st_prop (snd (do_init reg st))) = configure_started (st_prop st)"
  "configure_finished (st_prop (snd (do_init reg st))) = configure_finished (st_prop st)"
proof -
  define st1 where "st1 = st\<lparr>st_prop := (st_prop st)\<lparr>prop_strategies := Some Map.empty\<rparr>\<rparr>"
  obtain r st2 where g: "get_strategy reg st1 (prop_strategy_key (st_prop st1)) = (r, st2)"
    by (cases "get_strategy reg st1 (prop_strategy_key (st_prop st1))")
  from g have "st2 = snd (get_strategy reg st1 (prop_strategy_key (st_prop st1)))" by simp
  then have flags: "configure_started (st_prop st2) = configure_started (st_prop st)"
    "configure_finished (st_prop st2) = configure_finished (st_prop st)"
    by (simp_all add: get_strategy_flags st1_def)
  from g have "snd (do_init reg st) = st2 \<or>
      (\<exists>a. snd (do_init reg st) = st2\<lparr>st_prop := (st_prop st2)\<lparr>prop_strategy := Some a\<rparr>\<rparr>)"
    by (cases r) (auto simp add: do_init_def st1_def Let_def)
  with flags show
    "configure_started (st_prop (snd (do_init reg st))) = configure_started (st_prop st)"
    "configure_finished (st_prop (snd (do_init reg st))) = configure_finished (st_prop st)"
    by auto
qed

lemma init_unfold:
  "init reg st =
     (case strategy_lookup reg (prop_cls (st_prop st)) (prop_id (st_prop st))
             (prop_strategy_key (st_prop st)) of
        Inl e \<Rightarrow>
          (Inl e, st\<lparr>st_prop := (st_prop st)\<lparr>configure_started := True,
                                             prop_strategies := Some Map.empty\<rparr>\<rparr>)
      | Inr cls \<Rightarrow>
          (Inr (),
           \<lparr>st_heap = st_heap st @
              [LoaderStrategy_init cls
                 ((st_prop st)\<lparr>configure_started := True, prop_strategies := Some Map.empty\<rparr>)
                 (prop_strategy_key (st_prop st))],
            st_prop = (st_prop st)
              \<lparr>configure_started := True,
               prop_strategies := Some [prop_strategy_key (st_prop st) \<mapsto> length (st_heap st)],
               prop_strategy := Some (length (st_heap st)),
               configure_finished := True\<rparr>\<rparr>))"
  by (simp add: init_def do_init_def get_strategy_def Let_def split: sum.splits)

lemma init_flags:
  "configure_started (st_prop (snd (init reg st)))"
  "fst (init reg st) = Inr () \<Longrightarrow> configure_finished (st_prop (snd (init reg st)))"
  "fst (init reg st) \<noteq> Inr () \<Longrightarrow>
     configure_finished (st_prop (snd (init reg st))) = configure_finished (st_prop st)"
  by (simp_all add: init_unfold split: sum.splits)

lemma select_strategy_flags:
  "configure_started (st_prop (snd (select_strategy reg st loader))) =
     configure_started (st_prop st)"
  "configure_finished (st_prop (snd (select_strategy reg st loader))) =
     configure_finished (st_prop st)"
  by (simp_all add: select_strategy_def get_strategy_flags split: option.splits)

lemma prop_setup_state:
  "snd (prop_setup reg st ctx query_entity pth adapter kwargs) =
     snd (select_strategy reg st (get_context_loader (st_prop st) ctx pth))"
  by (simp add: prop_setup_def Let_def split: prod.splits sum.splits)

lemma create_row_processor_state:
  "snd (create_row_processor reg st ctx query_entity pth mpr result adapter populators) =
     snd (select_strategy reg st (get_context_loader (st_prop st) ctx pth))"
  by (simp add: create_row_processor_def Let_def split: prod.splits sum.splits)

lemma step_flags:
  "configure_started (st_prop st) \<Longrightarrow> configure_started (st_prop (step reg st op))"
  "configure_finished (st_prop st) \<Longrightarrow> configure_finished (st_prop (step reg st op))"
proof -
  show "configure_started (st_prop st) \<Longrightarrow> configure_started (st_prop (step reg st op))"
    by (cases op)
      (simp_all add: init_flags do_init_flags get_strategy_flags prop_setup_state
        create_row_processor_state select_strategy_flags set_parent_def)
  show "configure_finished (st_prop st) \<Longrightarrow> configure_finished (st_prop (step reg st op))"
  proof (cases op)
    case Op_init
    assume fin: "configure_finished (st_prop st)"
    show ?thesis
    proof (cases "fst (init reg st) = Inr ()")
      case True
      then show ?thesis using Op_init by (simp add: init_flags)
    next
      case False
      then show ?thesis using Op_init fin by (simp add: init_flags)
    qed
  qed (simp_all add: do_init_flags get_strategy_flags prop_setup_state
        create_row_processor_state select_strategy_flags set_parent_def)
qed

lemma run_flags:
  "configure_started (st_prop st) \<Longrightarrow> configure_started (st_prop (run reg st ops))"
  "configure_finished (st_prop st) \<Longrightarrow> configure_finished (st_prop (run reg st ops))"
  unfolding run_def
  by (induction ops arbitrary: st) (simp_all add: step_flags)

subsection \<open>The cache stays sound\<close>

text \<open>
  The hypothesis of soundness above holds of every state the operations reach: a
  constructed property has no cache yet, \<open>do_init\<close> starts an empty one, and every
  operation keeps a sound cache sound.
\<close>

lemma cache_ok_constructed:
  "cache_ok \<lparr>st_heap = h, st_prop = MapperProperty_init ident cls parent name default_key\<rparr>"
  by (simp add: cache_ok_def MapperProperty_init_def)

lemma get_strategy_raises:
  "fst (get_strategy reg st skey) = Inl e \<Longrightarrow> snd (get_strategy reg st skey) = st"
  by (simp add: get_strategy_def Let_def split: option.splits sum.splits)

lemma cache_ok_get_strategy_snd:
  assumes "cache_ok st"
  shows "cache_ok (snd (get_strategy reg st skey))"
proof (cases "fst (get_strategy reg st skey)")
  case (Inl e)
  with assms show ?thesis by (simp add: get_strategy_raises)
next
  case (Inr a)
  then have "get_strategy reg st skey = (Inr a, snd (get_strategy reg st skey))"
    by (simp add: prod_eq_iff)
  with assms show ?thesis by (rule cache_ok_get_strategy)
qed

lemma cache_ok_fields:
  "cache_ok st \<Longrightarrow> cache_ok (st\<lparr>st_prop := (st_prop st)\<lparr>prop_strategy := s\<rparr>\<rparr>)"
  "cache_ok st \<Longrightarrow> cache_ok (st\<lparr>st_prop := (st_prop st)\<lparr>configure_started := b\<rparr>\<rparr>)"
  "cache_ok st \<Longrightarrow> cache_ok (st\<lparr>st_prop := (st_prop st)\<lparr>configure_finished := b\<rparr>\<rparr>)"
  "cache_ok st \<Longrightarrow> cache_ok (st\<lparr>st_prop := (st_prop st)\<lparr>prop_parent := m\<rparr>\<rparr>)"
  by (simp_all add: cache_ok_def)

lemma cache_ok_do_init: "cache_ok (snd (do_init reg st))"
proof -
  define st1 where "st1 = st\<lparr>st_prop := (st_prop st)\<lparr>prop_strategies := Some Map.empty\<rparr>\<rparr>"
  have "cache_ok st1"
    by (simp add: st1_def cache_ok_empty)
  then have ok2: "cache_ok (snd (get_strategy reg st1 (prop_strategy_key (st_prop st1))))"
    by (rule cache_ok_get_strategy_snd)
  obtain r st2 where g: "get_strategy reg st1 (prop_strategy_key (st_prop st1)) = (r, st2)"
    by (cases "get_strategy reg st1 (prop_strategy_key (st_prop st1))")
  with ok2 have "cache_ok st2" by simp
  moreover from g have "snd (do_init reg st) = st2 \<or>
      (\<exists>a. snd (do_init reg st) = st2\<lparr>st_prop := (st_prop st2)\<lparr>prop_strategy := Some a\<rparr>\<rparr>)"
    by (cases r) (auto simp add: do_init_def st1_def Let_def)
  ultimately show ?thesis
    by (auto simp: cache_ok_fields)
qed

lemma cache_ok_init: "cache_ok (snd (init reg st))"
proof -
  define st1 where "st1 = st\<lparr>st_prop := (st_prop st)\<lparr>configure_started := True\<rparr>\<rparr>"
  have ok: "cache_ok (snd (do_init reg st1))"
    by (rule cache_ok_do_init)
  obtain r st2 where d: "do_init reg st1 = (r, st2)"
    by (cases "do_init reg st1")
  with ok have "cache_ok st2" by simp
  moreover from d have "snd (init reg st) = st2 \<or>
      snd (init reg st) = st2\<lparr>st_prop := (st_prop st2)\<lparr>configure_finished := True\<rparr>\<rparr>"
    by (cases r) (auto simp add: init_def st1_def Let_def)
  ultimately show ?thesis
    by (auto simp: cache_ok_fields)
qed

lemma cache_ok_select_strategy:
  "cache_ok st \<Longrightarrow> cache_ok (snd (select_strategy reg st loader))"
  by (simp add: select_strategy_def cache_ok_get_strategy_snd split: option.splits)

lemma cache_ok_step: "cache_ok st \<Longrightarrow> cache_ok (step reg st op)"
  by (cases op)
    (simp_all add: cache_ok_init cache_ok_do_init cache_ok_get_strategy_snd prop_setup_state
      create_row_processor_state cache_ok_select_strategy set_parent_def cache_ok_fields)

lemma cache_ok_run: "cache_ok st \<Longrightarrow> cache_ok (run reg st ops)"
  unfolding run_def
  by (induction ops arbitrary: st) (simp_all add: cache_ok_step)

subsection \<open>Equal keys\<close>

text \<open>
  The key \<open>(("lazy", 1),)\<close> is the key \<open>(("lazy", True),)\<close>: the registry finds the lazy loader
  under it, and the strategy cache serves both from one entry.
\<close>

lemma ex_lookup_one:
  "strategy_lookup ex_reg relationship_cls 7 [(''lazy'', PyInt 1)] = Inr ''LazyLoader''"
  by (simp add: strategy_lookup_def ex_reg_value mro_def relationship_cls_def)

lemma ex_get_one:
  "get_strategy ex_reg (snd (get_strategy ex_reg ex_initialized key_true)) [(''lazy'', PyInt 1)] =
     (Inr 1, snd (get_strategy ex_reg ex_initialized key_true))"
proof -
  have k: "[(''lazy'', PyInt 1)] = key_true"
    by (simp add: key_true_def)
  have c: "prop_strategies (st_prop (snd (get_strategy ex_reg ex_initialized key_true))) =
             Some [key_select \<mapsto> 0, key_true \<mapsto> 1]"
    by (simp add: ex_get_true)
  show ?thesis
    unfolding k by (rule get_strategy_hit [OF c]) simp
qed

lemma lookup_equal_keys:
  "strategy_lookup
     (all_strategies
        (strategy_for ''B'' [(''lazy'', PyInt 1)] ''SB''
           (strategy_for ''A'' [(''lazy'', PyTrue)] ''SA'' empty_registry)))
     \<lparr>cls_name = ''A'', cls_ancestors = [''B'']\<rparr> 0 [(''lazy'', PyInt 1)] = Inr ''SA''"
  by (simp add: strategy_lookup_def strategy_for_def empty_registry_def sorted_items_def
      mro_def Let_def)

lemma ex_lookup_one_column:
  "strategy_lookup ex_reg column_cls 3 [(''lazy'', PyInt 1)] =
     Inl (LoaderStrategyException column_cls 3 (Some ''RelationshipProperty'')
            (Some ''LazyLoader'') [(''lazy'', PyInt 1)])"
  by (simp add: strategy_lookup_def ex_reg_value mro_def column_cls_def)

subsection \<open>What the operations keep\<close>

lemma do_init_unfold:
  "do_init reg st =
     (case strategy_lookup reg (prop_cls (st_prop st)) (prop_id (st_prop st))
             (prop_strategy_key (st_prop st)) of
        Inl e \<Rightarrow> (Inl e, st\<lparr>st_prop := (st_prop st)\<lparr>prop_strategies := Some Map.empty\<rparr>\<rparr>)
      | Inr cls \<Rightarrow>
          (Inr (),
           \<lparr>st_heap = st_heap st @
              [LoaderStrategy_init cls ((st_prop st)\<lparr>prop_strategies := Some Map.empty\<rparr>)
                 (prop_strategy_key (st_prop st))],
            st_prop = (st_prop st)
              \<lparr>prop_strategies := Some [prop_strategy_key (st_prop st) \<mapsto> length (st_heap st)],
               prop_strategy := Some (length (st_heap st))\<rparr>\<rparr>))"
  by (simp add: do_init_def get_strategy_def Let_def split: sum.splits)

lemma get_strategy_identity:
  "prop_cls (st_prop (snd (get_strategy reg st skey))) = prop_cls (st_prop st)"
  "prop_id (st_prop (snd (get_strategy reg st skey))) = prop_id (st_prop st)"
  "prop_strategy_key (st_prop (snd (get_strategy reg st skey))) = prop_strategy_key (st_prop st)"
  "length (st_heap st) \<le> length (st_heap (snd (get_strategy reg st skey)))"
  by (simp_all add: get_strategy_def Let_def split: option.splits sum.splits)

lemma select_strategy_identity:
  "prop_cls (st_prop (snd (select_strategy reg st loader))) = prop_cls (st_prop st)"
  "prop_id (st_prop (snd (select_strategy reg st loader))) = prop_id (st_prop st)"
  "prop_strategy_key (st_prop (snd (select_strategy reg st loader))) =
     prop_strategy_key (st_prop st)"
  "length (st_heap st) \<le> length (st_heap (snd (select_strategy reg st loader)))"
  by (simp_all add: select_strategy_def get_strategy_identity split: option.splits)

lemma step_identity:
  "prop_cls (st_prop (step reg st op)) = prop_cls (st_prop st)"
  "prop_id (st_prop (step reg st op)) = prop_id (st_prop st)"
  "prop_strategy_key (st_prop (step reg st op)) = prop_strategy_key (st_prop st)"
  "length (st_heap st) \<le> length (st_heap (step reg st op))"
  by (cases op;
      simp add: init_unfold do_init_unfold get_strategy_identity prop_setup_state
        create_row_processor_state select_strategy_identity set_parent_def
        split: sum.splits)+

lemma run_identity:
  "prop_cls (st_prop (run reg st ops)) = prop_cls (st_prop st)"
  "prop_id (st_prop (run reg st ops)) = prop_id (st_prop st)"
  "prop_strategy_key (st_prop (run reg st ops)) = prop_strategy_key (st_prop st)"
  "length (st_heap st) \<le> length (st_heap (run reg st ops))"
proof -
  have "prop_cls (st_prop (run reg st ops)) = prop_cls (st_prop st) \<and>
        prop_id (st_prop (run reg st ops)) = prop_id (st_prop st) \<and>
        prop_strategy_key (st_prop (run reg st ops)) = prop_strategy_key (st_prop st) \<and>
        length (st_heap st) \<le> length (st_heap (run reg st ops))"
    unfolding run_def
  proof (induction ops arbitrary: st)
    case Nil
    show ?case by simp
  next
    case (Cons op ops)
    have grow: "length (st_heap st) \<le> length (st_heap (step reg st op))"
      by (rule step_identity(4))
    from Cons.IH [of "step reg st op"] grow
    show ?case by (simp del: step.simps add: step_identity(1-3))
  qed
  then show
    "prop_cls (st_prop (run reg st ops)) = prop_cls (st_prop st)"
    "prop_id (st_prop (run reg st ops)) = prop_id (st_prop st)"
    "prop_strategy_key (st_prop (run reg st ops)) = prop_strategy_key (st_prop st)"
    "length (st_heap st) \<le> length (st_heap (run reg st ops))"
    by simp_all
qed

text \<open>An entry of the strategy cache stays where it is as long as \<open>do_init\<close> does not run.\<close>

lemma get_strategy_keeps:
  assumes "prop_strategies (st_prop st) = Some cache" and "cache k = Some a"
  shows "\<exists>cache'. prop_strategies (st_prop (snd (get_strategy reg st skey))) = Some cache' \<and>
           cache' k = Some a"
  using assms
  by (auto simp: get_strategy_def Let_def split: option.splits sum.splits)

lemma select_strategy_keeps:
  assumes "prop_strategies (st_prop st) = Some cache" and "cache k = Some a"
  shows "\<exists>cache'. prop_strategies (st_prop (snd (select_strategy reg st loader))) = Some cache' \<and>
           cache' k = Some a"
  using assms get_strategy_keeps [OF assms]
  by (auto simp: select_strategy_def split: option.splits)

lemma step_keeps:
  assumes "op \<noteq> Op_init" and "op \<noteq> Op_do_init"
    and "prop_strategies (st_prop st) = Some cache" and "cache k = Some a"
  shows "\<exists>cache'. prop_strategies (st_prop (step reg st op)) = Some cache' \<and> cache' k = Some a"
proof (cases op)
  case Op_init
  with assms(1) show ?thesis by simp
next
  case Op_do_init
  with assms(2) show ?thesis by simp
next
  case (Op_get_strategy skey)
  with get_strategy_keeps [OF assms(3,4)] show ?thesis by simp
next
  case (Op_setup ctx query_entity pth adapter kwargs)
  with select_strategy_keeps [OF assms(3,4)] show ?thesis by (simp add: prop_setup_state)
next
  case (Op_create_row_processor ctx query_entity pth mpr result adapter populators)
  with select_strategy_keeps [OF assms(3,4)] show ?thesis
    by (simp add: create_row_processor_state)
next
  case (Op_post_instrument_class mpr)
  with assms(3,4) show ?thesis by simp
next
  case (Op_set_parent parent init_flag)
  with assms(3,4) show ?thesis by (simp add: set_parent_def)
qed

lemma run_keeps:
  assumes "list_all (\<lambda>op. op \<noteq> Op_init \<and> op \<noteq> Op_do_init) ops"
    and "prop_strategies (st_prop st) = Some cache" and "cache k = Some a"
  shows "\<exists>cache'. prop_strategies (st_prop (run reg st ops)) = Some cache' \<and> cache' k = Some a"
  using assms unfolding run_def
proof (induction ops arbitrary: st cache)
  case Nil
  then show ?case by simp
next
  case (Cons op ops)
  from Cons.prems(1) have op: "op \<noteq> Op_init" "op \<noteq> Op_do_init"
    and rest: "list_all (\<lambda>op. op \<noteq> Op_init \<and> op \<noteq> Op_do_init) ops"
    by simp_all
  from step_keeps [OF op Cons.prems(2,3)] obtain cache' where
    "prop_strategies (st_prop (step reg st op)) = Some cache'" "cache' k = Some a"
    by blast
  from Cons.IH [OF rest this] show ?case by (simp del: step.simps)
qed

subsection \<open>Memoization along operations\<close>

lemma get_strategy_twice:
  assumes "prop_strategies (st_prop st) = Some cache"
    and "cache skey = Some cached \<or>
         cache skey = None \<and> lookup_mro reg (mro (prop_cls (st_prop st))) skey = Some cls"
  shows "\<exists>a st'.
           get_strategy reg st skey = (Inr a, st') \<and>
           get_strategy reg st' skey = (Inr a, st') \<and>
           (\<exists>cache'. prop_strategies (st_prop st') = Some cache' \<and> cache' skey = Some a) \<and>
           (cache skey = Some a \<and> st' = st \<or>
            cache skey = None \<and> a = length (st_heap st) \<and>
            st_heap st' = st_heap st @ [LoaderStrategy_init cls (st_prop st) skey] \<and>
            prop_strategies (st_prop st') = Some (cache(skey \<mapsto> a)))"
  using assms(2)
proof
  assume hit: "cache skey = Some cached"
  with assms(1) have "get_strategy reg st skey = (Inr cached, st)"
    by (simp add: get_strategy_hit)
  with assms(1) hit show ?thesis by auto
next
  assume miss: "cache skey = None \<and> lookup_mro reg (mro (prop_cls (st_prop st))) skey = Some cls"
  define a where "a = length (st_heap st)"
  define st' where
    "st' = \<lparr>st_heap = st_heap st @ [LoaderStrategy_init cls (st_prop st) skey],
            st_prop = (st_prop st)\<lparr>prop_strategies := Some (cache(skey \<mapsto> a))\<rparr>\<rparr>"
  from miss have "strategy_lookup reg (prop_cls (st_prop st)) (prop_id (st_prop st)) skey = Inr cls"
    by (simp add: strategy_lookup_Inr)
  with assms(1) miss have first: "get_strategy reg st skey = (Inr a, st')"
    by (simp add: get_strategy_def Let_def a_def st'_def)
  have cache': "prop_strategies (st_prop st') = Some (cache(skey \<mapsto> a))"
    by (simp add: st'_def)
  then have second: "get_strategy reg st' skey = (Inr a, st')"
    by (simp add: get_strategy_hit)
  have heap': "st_heap st' = st_heap st @ [LoaderStrategy_init cls (st_prop st) skey]"
    by (simp add: st'_def)
  from first second cache' heap' miss a_def show ?thesis by auto
qed

text \<open>
  C1, as the code has it. For a property whose strategy cache exists and a key that
  is cached or registered along the class's method resolution order, \<open>_get_strategy\<close>
  returns an instance. On a miss the call builds one new instance and stores it in the
  cache under the key; on a hit it returns the cached instance and changes nothing.
  A second call with the same key, and every later call with it after any operations
  among which \<open>do_init()\<close> does not run (neither directly nor through \<open>init()\<close>),
  returns the same instance and leaves the state, the heap of instances included, as it
  found it.
\<close>

theorem get_strategy_memoized:
  assumes "prop_strategies (st_prop st) = Some cache"
    and "cache skey = Some cached \<or>
         cache skey = None \<and> lookup_mro reg (mro (prop_cls (st_prop st))) skey = Some cls"
    and "list_all (\<lambda>op. op \<noteq> Op_init \<and> op \<noteq> Op_do_init) ops"
  shows "\<exists>a st'.
           get_strategy reg st skey = (Inr a, st') \<and>
           get_strategy reg st' skey = (Inr a, st') \<and>
           get_strategy reg (run reg st' ops) skey = (Inr a, run reg st' ops) \<and>
           (\<exists>cache'. prop_strategies (st_prop st') = Some cache' \<and> cache' skey = Some a) \<and>
           (cache skey = Some a \<and> st' = st \<or>
            cache skey = None \<and> a = length (st_heap st) \<and>
            st_heap st' = st_heap st @ [LoaderStrategy_init cls (st_prop st) skey] \<and>
            prop_strategies (st_prop st') = Some (cache(skey \<mapsto> a)))"
proof -
  from get_strategy_twice [OF assms(1,2)] obtain a st' cache' where
    first: "get_strategy reg st skey = (Inr a, st')"
    and second: "get_strategy reg st' skey = (Inr a, st')"
    and cache': "prop_strategies (st_prop st') = Some cache'" "cache' skey = Some a"
    and how: "cache skey = Some a \<and> st' = st \<or>
            cache skey = None \<and> a = length (st_heap st) \<and>
            st_heap st' = st_heap st @ [LoaderStrategy_init cls (st_prop st) skey] \<and>
            prop_strategies (st_prop st') = Some (cache(skey \<mapsto> a))"
    by blast
  from run_keeps [OF assms(3) cache'] obtain cache'' where
    "prop_strategies (st_prop (run reg st' ops)) = Some cache''" "cache'' skey = Some a"
    by blast
  then have later: "get_strategy reg (run reg st' ops) skey = (Inr a, run reg st' ops)"
    by (rule get_strategy_hit)
  from first second later cache' how show ?thesis by blast
qed

theorem get_strategy_memoized_witness:
  "prop_strategies (st_prop ex_initialized) = Some [key_select \<mapsto> 0] \<and>
   [key_select \<mapsto> (0::nat)] key_joined = None \<and>
   lookup_mro ex_reg (mro (prop_cls (st_prop ex_initialized))) key_joined = Some ''JoinedLoader'' \<and>
   list_all (\<lambda>op. op \<noteq> Op_init \<and> op \<noteq> Op_do_init)
     [Op_get_strategy key_true, Op_setup ctx_exact 11 ex_path 12 [],
      Op_set_parent mapper_with_impl True, Op_post_instrument_class ex_mapper] \<and>
   (\<exists>st'. get_strategy ex_reg ex_initialized key_joined = (Inr 1, st') \<and>
          get_strategy ex_reg st' key_joined = (Inr 1, st') \<and>
          get_strategy ex_reg
            (run ex_reg st'
               [Op_get_strategy key_true, Op_setup ctx_exact 11 ex_path 12 [],
                Op_set_parent mapper_with_impl True, Op_post_instrument_class ex_mapper])
            key_joined =
            (Inr 1,
             run ex_reg st'
               [Op_get_strategy key_true, Op_setup ctx_exact 11 ex_path 12 [],
                Op_set_parent mapper_with_impl True, Op_post_instrument_class ex_mapper]) \<and>
          length (st_heap st') = 2)"
proof -
  have h1: "prop_strategies (st_prop ex_initialized) = Some [key_select \<mapsto> 0]"
    by (simp add: ex_initialized_fields)
  have h2: "[key_select \<mapsto> (0::nat)] key_joined = None"
    by (simp add: key_distinct)
  have h3: "lookup_mro ex_reg (mro (prop_cls (st_prop ex_initialized))) key_joined =
              Some ''JoinedLoader''"
    using ex_lookup_joined by (simp add: ex_initialized_fields strategy_lookup_Inr)
  have h4: "list_all (\<lambda>op. op \<noteq> Op_init \<and> op \<noteq> Op_do_init)
     [Op_get_strategy key_true, Op_setup ctx_exact 11 ex_path 12 [],
      Op_set_parent mapper_with_impl True, Op_post_instrument_class ex_mapper]"
    by simp
  from h2 h3 have h: "[key_select \<mapsto> (0::nat)] key_joined = Some 0 \<or>
      [key_select \<mapsto> (0::nat)] key_joined = None \<and>
      lookup_mro ex_reg (mro (prop_cls (st_prop ex_initialized))) key_joined =
        Some ''JoinedLoader''"
    by blast
  from get_strategy_memoized [OF h1 h h4] obtain a st' where
    r: "get_strategy ex_reg ex_initialized key_joined = (Inr a, st')"
       "get_strategy ex_reg st' key_joined = (Inr a, st')"
       "get_strategy ex_reg
            (run ex_reg st'
               [Op_get_strategy key_true, Op_setup ctx_exact 11 ex_path 12 [],
                Op_set_parent mapper_with_impl True, Op_post_instrument_class ex_mapper])
            key_joined =
            (Inr a,
             run ex_reg st'
               [Op_get_strategy key_true, Op_setup ctx_exact 11 ex_path 12 [],
                Op_set_parent mapper_with_impl True, Op_post_instrument_class ex_mapper])"
    by blast
  from r(1) have "a = 1" "length (st_heap st') = 2"
    by (auto simp add: ex_get_joined ex_initialized_fields)
  with r have "\<exists>st'. get_strategy ex_reg ex_initialized key_joined = (Inr 1, st') \<and>
          get_strategy ex_reg st' key_joined = (Inr 1, st') \<and>
          get_strategy ex_reg
            (run ex_reg st'
               [Op_get_strategy key_true, Op_setup ctx_exact 11 ex_path 12 [],
                Op_set_parent mapper_with_impl True, Op_post_instrument_class ex_mapper])
            key_joined =
            (Inr 1,
             run ex_reg st'
               [Op_get_strategy key_true, Op_setup ctx_exact 11 ex_path 12 [],
                Op_set_parent mapper_with_impl True, Op_post_instrument_class ex_mapper]) \<and>
          length (st_heap st') = 2"
    by blast
  with h1 h2 h3 h4 show ?thesis by blast
qed

text \<open>
  C1, as the specification states it, fails: not every later call returns the cached
  instance. The example property, initialised, resolves \<open>lazy="joined"\<close> to the
  instance 1. After a second \<open>init()\<close>, whose \<open>do_init()\<close> replaces the cache by a new
  one, the same key is resolved to a newly built instance, 3.
\<close>

theorem get_strategy_after_init_counterexample:
  "fst (get_strategy ex_reg ex_initialized key_joined) = Inr 1 \<and>
   fst (get_strategy ex_reg
          (run ex_reg (snd (get_strategy ex_reg ex_initialized key_joined)) [Op_init])
          key_joined) = Inr 3"
proof -
  define s1 where "s1 = snd (get_strategy ex_reg ex_initialized key_joined)"
  define s2 where "s2 = snd (init ex_reg s1)"
  have first: "fst (get_strategy ex_reg ex_initialized key_joined) = Inr 1"
    by (simp add: ex_get_joined)
  have default_key: "prop_strategy_key (st_prop ex_initialized) = key_select"
    by (simp add: ex_initialized_value ex_prop_def MapperProperty_init_def)
  have s1: "prop_cls (st_prop s1) = relationship_cls" "prop_id (st_prop s1) = 7"
    "prop_strategy_key (st_prop s1) = key_select"
    by (simp_all add: s1_def get_strategy_identity ex_initialized_fields default_key)
  have len1: "length (st_heap s1) = 2"
    by (simp add: s1_def ex_get_joined ex_initialized_fields)
  have s2: "prop_cls (st_prop s2) = relationship_cls" "prop_id (st_prop s2) = 7"
    "prop_strategies (st_prop s2) = Some [key_select \<mapsto> 2]" "length (st_heap s2) = 3"
    by (simp_all add: s2_def init_unfold [of ex_reg s1] s1 len1 ex_lookup_select)
  have "fst (get_strategy ex_reg s2 key_joined) = Inr 3"
    by (simp add: get_strategy_def Let_def s2 key_distinct ex_lookup_joined)
  moreover have "run ex_reg s1 [Op_init] = s2"
    by (simp add: run_def s2_def)
  ultimately show ?thesis
    using first by (simp add: s1_def)
qed

subsection \<open>Initialisation, once and again\<close>

lemma init_returns:
  "fst (init reg st) = Inr () \<longleftrightarrow>
     (\<exists>c. strategy_lookup reg (prop_cls (st_prop st)) (prop_id (st_prop st))
             (prop_strategy_key (st_prop st)) = Inr c)"
  by (cases "strategy_lookup reg (prop_cls (st_prop st)) (prop_id (st_prop st))
               (prop_strategy_key (st_prop st))") (simp_all add: init_unfold)

lemma init_returned:
  assumes "fst (init reg st) = Inr ()"
  shows "prop_strategies (st_prop (snd (init reg st))) =
           Some [prop_strategy_key (st_prop st) \<mapsto> length (st_heap st)]"
    and "prop_strategy (st_prop (snd (init reg st))) = Some (length (st_heap st))"
    and "length (st_heap (snd (init reg st))) = Suc (length (st_heap st))"
proof -
  from assms obtain c where
    "strategy_lookup reg (prop_cls (st_prop st)) (prop_id (st_prop st))
       (prop_strategy_key (st_prop st)) = Inr c"
    unfolding init_returns by blast
  then show "prop_strategies (st_prop (snd (init reg st))) =
           Some [prop_strategy_key (st_prop st) \<mapsto> length (st_heap st)]"
    and "prop_strategy (st_prop (snd (init reg st))) = Some (length (st_heap st))"
    and "length (st_heap (snd (init reg st))) = Suc (length (st_heap st))"
    by (simp_all add: init_unfold)
qed

lemma init_again_returns:
  assumes "fst (init reg st) = Inr ()"
  shows "fst (init reg (run reg (snd (init reg st)) ops)) = Inr ()"
proof -
  have init_step: "snd (init reg st) = step reg st Op_init"
    by simp
  have same: "prop_cls (st_prop (run reg (snd (init reg st)) ops)) = prop_cls (st_prop st)"
    "prop_id (st_prop (run reg (snd (init reg st)) ops)) = prop_id (st_prop st)"
    "prop_strategy_key (st_prop (run reg (snd (init reg st)) ops)) =
       prop_strategy_key (st_prop st)"
    unfolding init_step by (simp_all only: run_identity step_identity)
  from assms show ?thesis
    unfolding init_returns same .
qed

text \<open>
  C6, as the code has it. A constructed property has both flags false. \<open>init()\<close> sets
  \<open>_configure_started\<close>, runs \<open>do_init()\<close> and, when \<open>do_init()\<close> returns, sets
  \<open>_configure_finished\<close>; when \<open>do_init()\<close> raises, \<open>_configure_finished\<close> stays as it
  was. No sequence of operations turns a flag that is true back to false. \<open>init()\<close> has
  no guard: after an \<open>init()\<close> that returned, a second \<open>init()\<close>, at once or after any
  operations, returns as well and runs \<open>do_init()\<close> again. That replaces the strategy
  cache by one that holds the default Strategy Key alone, whatever the cache held
  before, and builds a new default strategy instance at the end of the heap, to which
  the cache entry and \<open>self.strategy\<close> refer.
\<close>

theorem init_flags_monotonic:
  "\<not> configure_started (MapperProperty_init ident cls parent name default_key) \<and>
   \<not> configure_finished (MapperProperty_init ident cls parent name default_key) \<and>
   configure_started (st_prop (snd (init reg st))) \<and>
   (fst (init reg st) = Inr () \<longrightarrow> configure_finished (st_prop (snd (init reg st)))) \<and>
   (fst (init reg st) \<noteq> Inr () \<longrightarrow>
      configure_finished (st_prop (snd (init reg st))) = configure_finished (st_prop st)) \<and>
   (configure_started (st_prop st) \<longrightarrow> configure_started (st_prop (run reg st ops))) \<and>
   (configure_finished (st_prop st) \<longrightarrow> configure_finished (st_prop (run reg st ops))) \<and>
   (fst (init reg st) = Inr () \<longrightarrow>
      fst (init reg (snd (init reg st))) = Inr () \<and>
      prop_strategy (st_prop (snd (init reg st))) = Some (length (st_heap st)) \<and>
      prop_strategy (st_prop (snd (init reg (snd (init reg st))))) =
        Some (Suc (length (st_heap st))) \<and>
      length (st_heap (snd (init reg st))) = Suc (length (st_heap st)) \<and>
      length (st_heap (snd (init reg (snd (init reg st))))) = Suc (Suc (length (st_heap st)))) \<and>
   (fst (init reg st) = Inr () \<longrightarrow>
      prop_strategies (st_prop (snd (init reg st))) =
        Some [prop_strategy_key (st_prop st) \<mapsto> length (st_heap st)] \<and>
      fst (init reg (run reg (snd (init reg st)) ops)) = Inr () \<and>
      prop_strategies (st_prop (snd (init reg (run reg (snd (init reg st)) ops)))) =
        Some [prop_strategy_key (st_prop st) \<mapsto>
                length (st_heap (run reg (snd (init reg st)) ops))] \<and>
      prop_strategy (st_prop (snd (init reg (run reg (snd (init reg st)) ops)))) =
        Some (length (st_heap (run reg (snd (init reg st)) ops))) \<and>
      length (st_heap (snd (init reg (run reg (snd (init reg st)) ops)))) =
        Suc (length (st_heap (run reg (snd (init reg st)) ops))) \<and>
      length (st_heap st) < length (st_heap (run reg (snd (init reg st)) ops)))"
proof -
  have later: "prop_strategies (st_prop (snd (init reg st))) =
        Some [prop_strategy_key (st_prop st) \<mapsto> length (st_heap st)] \<and>
      fst (init reg (run reg (snd (init reg st)) ops)) = Inr () \<and>
      prop_strategies (st_prop (snd (init reg (run reg (snd (init reg st)) ops)))) =
        Some [prop_strategy_key (st_prop st) \<mapsto>
                length (st_heap (run reg (snd (init reg st)) ops))] \<and>
      prop_strategy (st_prop (snd (init reg (run reg (snd (init reg st)) ops)))) =
        Some (length (st_heap (run reg (snd (init reg st)) ops))) \<and>
      length (st_heap (snd (init reg (run reg (snd (init reg st)) ops)))) =
        Suc (length (st_heap (run reg (snd (init reg st)) ops))) \<and>
      length (st_heap st) < length (st_heap (run reg (snd (init reg st)) ops))"
    if ok: "fst (init reg st) = Inr ()" for ops
  proof -
    define s where "s = run reg (snd (init reg st)) ops"
    have again: "fst (init reg s) = Inr ()"
      unfolding s_def using ok by (rule init_again_returns)
    have key: "prop_strategy_key (st_prop s) = prop_strategy_key (st_prop st)"
    proof -
      have "snd (init reg st) = step reg st Op_init" by simp
      then show ?thesis
        unfolding s_def by (simp only: run_identity step_identity)
    qed
    have grow: "length (st_heap st) < length (st_heap s)"
    proof -
      have "length (st_heap (snd (init reg st))) \<le> length (st_heap s)"
        unfolding s_def by (rule run_identity(4))
      with init_returned(3) [OF ok] show ?thesis by simp
    qed
    from init_returned [OF ok] init_returned [OF again] again key grow
    show ?thesis unfolding s_def by simp
  qed
  from later [of "[]"] have again: "fst (init reg st) = Inr () \<longrightarrow>
      fst (init reg (snd (init reg st))) = Inr () \<and>
      prop_strategy (st_prop (snd (init reg st))) = Some (length (st_heap st)) \<and>
      prop_strategy (st_prop (snd (init reg (snd (init reg st))))) =
        Some (Suc (length (st_heap st))) \<and>
      length (st_heap (snd (init reg st))) = Suc (length (st_heap st)) \<and>
      length (st_heap (snd (init reg (snd (init reg st))))) = Suc (Suc (length (st_heap st)))"
    using init_returned [of reg st] by (simp add: run_def)
  have flags: "\<not> configure_started (MapperProperty_init ident cls parent name default_key) \<and>
   \<not> configure_finished (MapperProperty_init ident cls parent name default_key) \<and>
   configure_started (st_prop (snd (init reg st))) \<and>
   (fst (init reg st) = Inr () \<longrightarrow> configure_finished (st_prop (snd (init reg st)))) \<and>
   (fst (init reg st) \<noteq> Inr () \<longrightarrow>
      configure_finished (st_prop (snd (init reg st))) = configure_finished (st_prop st)) \<and>
   (configure_started (st_prop st) \<longrightarrow> configure_started (st_prop (run reg st ops))) \<and>
   (configure_finished (st_prop st) \<longrightarrow> configure_finished (st_prop (run reg st ops)))"
    using init_flags [of reg st] run_flags [of st reg ops]
    by (simp add: MapperProperty_init_def)
  from flags again later [of ops] show ?thesis by blast
qed

theorem init_flags_monotonic_witness:
  "fst (init ex_reg ex_state) = Inr () \<and>
   configure_started (st_prop (snd (init ex_reg ex_state))) \<and>
   configure_finished (st_prop (snd (init ex_reg ex_state))) \<and>
   configure_started (st_prop ex_initialized) \<and>
   configure_finished (st_prop ex_initialized) \<and>
   configure_started (st_prop (run ex_reg ex_initialized
      [Op_get_strategy key_joined, Op_init, Op_set_parent mapper_with_impl True, Op_do_init])) \<and>
   configure_finished (st_prop (run ex_reg ex_initialized
      [Op_get_strategy key_joined, Op_init, Op_set_parent mapper_with_impl True, Op_do_init])) \<and>
   fst (init ex_reg (snd (init ex_reg ex_state))) = Inr () \<and>
   fst (init ex_reg (run ex_reg (snd (init ex_reg ex_state)) [Op_get_strategy key_joined])) =
     Inr () \<and>
   prop_strategies
     (st_prop (snd (init ex_reg
        (run ex_reg (snd (init ex_reg ex_state)) [Op_get_strategy key_joined])))) =
     Some [key_select \<mapsto> 2]"
proof -
  have h: "fst (init ex_reg ex_state) = Inr ()"
    by (simp add: ex_init)
  have s: "configure_started (st_prop ex_initialized)"
    by (simp add: ex_initialized_value)
  have f: "configure_finished (st_prop ex_initialized)"
    by (simp add: ex_initialized_value)
  note a = init_flags_monotonic [of 7 relationship_cls ex_mapper "''addresses''" key_select
      ex_reg ex_state "[Op_get_strategy key_joined]"]
  note b = init_flags_monotonic [of 7 relationship_cls ex_mapper "''addresses''" key_select
      ex_reg ex_initialized
      "[Op_get_strategy key_joined, Op_init, Op_set_parent mapper_with_impl True, Op_do_init]"]
  from a h have r1: "configure_started (st_prop (snd (init ex_reg ex_state)))"
    "configure_finished (st_prop (snd (init ex_reg ex_state)))"
    "fst (init ex_reg (snd (init ex_reg ex_state))) = Inr ()"
    "fst (init ex_reg (run ex_reg (snd (init ex_reg ex_state)) [Op_get_strategy key_joined])) =
       Inr ()"
    "prop_strategies
       (st_prop (snd (init ex_reg
          (run ex_reg (snd (init ex_reg ex_state)) [Op_get_strategy key_joined])))) =
       Some [prop_strategy_key (st_prop ex_state) \<mapsto>
               length (st_heap (run ex_reg (snd (init ex_reg ex_state))
                                  [Op_get_strategy key_joined]))]"
    by blast+
  have len: "length (st_heap (run ex_reg (snd (init ex_reg ex_state))
                                  [Op_get_strategy key_joined])) = 2"
    using ex_get_joined
    by (simp add: run_def ex_initialized_def [symmetric] ex_initialized_fields)
  have key: "prop_strategy_key (st_prop ex_state) = key_select"
    by (simp add: ex_state_def ex_prop_def MapperProperty_init_def)
  from r1(5) have r3: "prop_strategies
     (st_prop (snd (init ex_reg
        (run ex_reg (snd (init ex_reg ex_state)) [Op_get_strategy key_joined])))) =
     Some [key_select \<mapsto> 2]"
    by (simp only: len key)
  from b s f have r2:
    "configure_started (st_prop (run ex_reg ex_initialized
      [Op_get_strategy key_joined, Op_init, Op_set_parent mapper_with_impl True, Op_do_init]))"
    "configure_finished (st_prop (run ex_reg ex_initialized
      [Op_get_strategy key_joined, Op_init, Op_set_parent mapper_with_impl True, Op_do_init]))"
    by blast+
  from h s f r1(1-4) r2 r3 show ?thesis by blast
qed

text \<open>
  C6, as the specification states it, fails: the second \<open>init()\<close> is neither rejected nor
  without effect. The example property after its first \<open>init()\<close> holds one strategy
  instance, the default strategy, cached under the default key; a second \<open>init()\<close>
  returns, and leaves a second instance in the heap, a new cache whose one entry refers
  to it, and the default strategy referring to it.
\<close>

theorem second_init_counterexample:
  "ex_initialized = snd (init ex_reg ex_state) \<and>
   fst (init ex_reg ex_state) = Inr () \<and>
   fst (init ex_reg ex_initialized) = Inr () \<and>
   snd (init ex_reg ex_initialized) \<noteq> ex_initialized \<and>
   prop_strategy (st_prop ex_initialized) = Some 0 \<and>
   prop_strategies (st_prop ex_initialized) = Some [key_select \<mapsto> 0] \<and>
   length (st_heap ex_initialized) = 1 \<and>
   prop_strategy (st_prop (snd (init ex_reg ex_initialized))) = Some 1 \<and>
   prop_strategies (st_prop (snd (init ex_reg ex_initialized))) = Some [key_select \<mapsto> 1] \<and>
   length (st_heap (snd (init ex_reg ex_initialized))) = 2"
proof -
  have default_key: "prop_strategy_key (st_prop ex_initialized) = key_select"
    by (simp add: ex_initialized_value ex_prop_def MapperProperty_init_def)
  have second: "fst (init ex_reg ex_initialized) = Inr ()"
    "prop_strategy (st_prop (snd (init ex_reg ex_initialized))) = Some 1"
    "prop_strategies (st_prop (snd (init ex_reg ex_initialized))) = Some [key_select \<mapsto> 1]"
    "length (st_heap (snd (init ex_reg ex_initialized))) = 2"
    by (simp_all add: init_unfold [of ex_reg ex_initialized] default_key ex_initialized_fields
        ex_lookup_select)
  have first: "prop_strategy (st_prop ex_initialized) = Some 0"
    "prop_strategies (st_prop ex_initialized) = Some [key_select \<mapsto> 0]"
    "length (st_heap ex_initialized) = 1"
    by (simp_all add: ex_initialized_fields)
  from second(4) first(3) have "snd (init ex_reg ex_initialized) \<noteq> ex_initialized"
    by auto
  with second first show ?thesis
    by (simp add: ex_initialized_def ex_init)
qed

end
